theory Spec2Isabelle
  imports Complex_Main "HOL-Library.AList"
begin

section \<open>Python values, failures and output\<close>

text \<open>
  The development follows \<^verbatim>\<open>modisco/tfmodisco_workflow/workflow.py\<close>. Python floats are
  modelled as exact rationals, Python integers as \<^typ>\<open>int\<close>, strings as ASCII
  \<^typ>\<open>string\<close>. Every exception the workflow can raise is a value of \<open>error\<close>.
\<close>

datatype error =
    AssertionError string
  | ValueError
  | KeyError string
  | ZeroDivisionError
  | NumpyError
  | CollaboratorError string

text \<open>One value per \<^verbatim>\<open>print\<close> statement of the workflow, carrying what is printed.\<close>

datatype event =
    UsingLaplaceThreshold rat
  | ReducingWeakThreshold rat rat
  | MetaclusterSizes "nat list"
  | IdxToActivities "(int \<times> string) list"
  | OnMetacluster int
  | MetaclusterSize nat
  | RelevantTasks "string list"
  | RelevantSigns "int list"
  | NoTasksFoundSkipping

text \<open>
  A computation that prints and may raise: the lines printed so far, and either the
  exception or the value.
\<close>

type_synonym 'a run = "event list \<times> (error + 'a)"

definition ret :: "'a \<Rightarrow> 'a run" where
  "ret x = ([], Inr x)"

definition lift :: "error + 'a \<Rightarrow> 'a run" where
  "lift r = ([], r)"

definition py_print :: "event \<Rightarrow> unit run" where
  "py_print e = ([e], Inr ())"

definition and_then :: "'a run \<Rightarrow> ('a \<Rightarrow> 'b run) \<Rightarrow> 'b run" where
  "and_then m f =
     (case m of
        (out, Inl e) \<Rightarrow> (out, Inl e)
      | (out, Inr x) \<Rightarrow> (case f x of (out', r) \<Rightarrow> (out @ out', r)))"

definition bindE :: "error + 'a \<Rightarrow> ('a \<Rightarrow> error + 'b) \<Rightarrow> error + 'b" where
  "bindE m f = (case m of Inl e \<Rightarrow> Inl e | Inr x \<Rightarrow> f x)"

text \<open>A list comprehension whose body may raise: the first exception ends it.\<close>

fun comprehension :: "('a \<Rightarrow> error + 'b) \<Rightarrow> 'a list \<Rightarrow> error + 'b list" where
  "comprehension f [] = Inr []"
| "comprehension f (x # xs) =
     (case f x of
        Inl e \<Rightarrow> Inl e
      | Inr y \<Rightarrow> (case comprehension f xs of Inl e \<Rightarrow> Inl e | Inr ys \<Rightarrow> Inr (y # ys)))"

definition getitem :: "(string \<rightharpoonup> 'v) \<Rightarrow> string \<Rightarrow> error + 'v" where
  "getitem d key = (case d key of None \<Rightarrow> Inl (KeyError key) | Some v \<Rightarrow> Inr v)"

subsection \<open>\<^verbatim>\<open>str\<close> and \<^verbatim>\<open>int\<close> on decimal integers\<close>

definition digit_char :: "nat \<Rightarrow> char" where
  "digit_char d = char_of (48 + d)"

fun str_nat :: "nat \<Rightarrow> string" where
  "str_nat n = (if n < 10 then [digit_char n] else str_nat (n div 10) @ [digit_char (n mod 10)])"

declare str_nat.simps [simp del]

definition str_int :: "int \<Rightarrow> string" where
  "str_int i = (if i < 0 then CHR ''-'' # str_nat (nat (- i)) else str_nat (nat i))"

definition is_digit :: "char \<Rightarrow> bool" where
  "is_digit c = ((48::nat) \<le> of_char c \<and> of_char c \<le> (57::nat))"

definition digit_val :: "char \<Rightarrow> nat" where
  "digit_val c = of_char c - (48::nat)"

text \<open>
  The characters that \<^verbatim>\<open>int\<close> strips from both ends of an ASCII string: tab, line feed,
  vertical tab, form feed, carriage return and space.
\<close>

definition is_space :: "char \<Rightarrow> bool" where
  "is_space c = (let n = (of_char c :: nat) in (9 \<le> n \<and> n \<le> 13) \<or> n = 32)"

definition strip :: "string \<Rightarrow> string" where
  "strip s = rev (dropWhile is_space (rev (dropWhile is_space s)))"

text \<open>
  The digits of a decimal literal after its first digit; a single underscore may stand
  between two digits.
\<close>

fun py_digits :: "string \<Rightarrow> nat \<Rightarrow> nat option" where
  "py_digits [] acc = Some acc"
| "py_digits (c # cs) acc =
     (if is_digit c then py_digits cs (10 * acc + digit_val c)
      else if c = CHR ''_'' then
        (case cs of
           [] \<Rightarrow> None
         | d # ds \<Rightarrow> if is_digit d then py_digits ds (10 * acc + digit_val d) else None)
      else None)"

definition py_nat :: "string \<Rightarrow> nat option" where
  "py_nat s = (case s of [] \<Rightarrow> None | c # cs \<Rightarrow> if is_digit c then py_digits cs (digit_val c) else None)"

text \<open>\<^verbatim>\<open>int(s)\<close> for an ASCII string: \<open>None\<close> stands for the \<^verbatim>\<open>ValueError\<close>.\<close>

definition py_int :: "string \<Rightarrow> int option" where
  "py_int s =
     (case strip s of
        [] \<Rightarrow> None
      | c # cs \<Rightarrow>
          if c = CHR ''-'' then map_option (\<lambda>n. - int n) (py_nat cs)
          else if c = CHR ''+'' then map_option int (py_nat cs)
          else map_option int (py_nat (c # cs)))"

text \<open>\<^verbatim>\<open>s.split(",")\<close>: the pieces between commas; there is always at least one piece.\<close>

fun split_comma :: "string \<Rightarrow> string list" where
  "split_comma [] = [[]]"
| "split_comma (c # cs) =
     (if c = CHR '','' then [] # split_comma cs
      else (case split_comma cs of p # ps \<Rightarrow> (c # p) # ps | [] \<Rightarrow> [[c]]))"

text \<open>\<^verbatim>\<open>range(n)\<close> and \<^verbatim>\<open>enumerate(xs)\<close>.\<close>

definition py_range :: "int \<Rightarrow> int list" where
  "py_range n = map int [0..<nat n]"

definition py_enumerate :: "'a list \<Rightarrow> (int \<times> 'a) list" where
  "py_enumerate xs = zip (py_range (int (length xs))) xs"

text \<open>\<^verbatim>\<open>max(xs)\<close> raises \<^verbatim>\<open>ValueError\<close> on an empty sequence.\<close>

definition py_max :: "int list \<Rightarrow> error + int" where
  "py_max xs = (case xs of [] \<Rightarrow> Inl ValueError | x # rest \<Rightarrow> Inr (fold max rest x))"

text \<open>
  \<^verbatim>\<open>a, b = zip(*pairs)\<close>: for a non-empty list of pairs \<^verbatim>\<open>zip\<close> yields exactly the two
  columns; for an empty list it yields nothing, and unpacking nothing into two names
  raises \<^verbatim>\<open>ValueError\<close>.
\<close>

definition unzip_pairs :: "('a \<times> 'b) list \<Rightarrow> error + ('a list \<times> 'b list)" where
  "unzip_pairs ps = (case ps of [] \<Rightarrow> Inl ValueError | _ # _ \<Rightarrow> Inr (map fst ps, map snd ps))"

definition py_assert :: "bool \<Rightarrow> string \<Rightarrow> error + unit" where
  "py_assert c msg = (if c then Inr () else Inl (AssertionError msg))"

section \<open>The data model\<close>

subsection \<open>Workflow configuration (\<^verbatim>\<open>TfModiscoWorkflow.__init__\<close>)\<close>

text \<open>\<^verbatim>\<open>laplace_threshold_cdf\<close> is either the string \<^verbatim>\<open>"auto"\<close> or a number.\<close>

datatype threshold_setting = Auto | Cdf rat

text \<open>
  The attributes of \<^verbatim>\<open>self\<close> that \<^verbatim>\<open>__call__\<close> reads. The remaining constructor
  arguments (\<^verbatim>\<open>histogram_bins\<close>, \<^verbatim>\<open>percentiles_in_bandwidth\<close>, \<^verbatim>\<open>overlap_portion\<close>)
  only configure collaborators.
\<close>

record workflow_config =
  sliding_window_size :: int
  flank_size :: int
  min_cluster_size :: int
  laplace_threshold_cdf :: threshold_setting
  weak_threshold_for_counting_sign :: "rat option"
  verbose :: bool

subsection \<open>Arrays and tracks\<close>

text \<open>
  A two-dimensional numeric array, position axis first, channel axis second: the list
  of its rows.
\<close>

type_synonym array2d = "rat list list"

text \<open>\<^verbatim>\<open>x[::-1, ::-1]\<close>: the array reversed along both axes.\<close>

definition reverse_both_axes :: "array2d \<Rightarrow> array2d" where
  "reverse_both_axes x = rev (map rev x)"

text \<open>
  Modelled from the spec: \<^verbatim>\<open>core.DataTrack\<close> and \<^verbatim>\<open>core.TrackSet\<close>, whose code is not
  part of the workflow module. A DataTrack is a name, the forward arrays, the reverse
  arrays and the position-axis flag it was constructed with; a TrackSet is the
  collection of DataTracks it was constructed from.
\<close>

record data_track =
  name :: string
  fwd_tracks :: "array2d list"
  rev_tracks :: "array2d list"
  has_pos_axis :: bool

record track_set =
  data_tracks :: "data_track list"

subsection \<open>Seqlets and collaborator results\<close>

text \<open>
  Modelled from the spec: a seqlet of \<^verbatim>\<open>core\<close> is a coordinate (sequence index, start
  offset, end offset, strand, score) and a mapping from attribute keys such as
  \<^verbatim>\<open>"<task>_label"\<close> to scalars; \<^verbatim>\<open>x[key]\<close> reads an attribute.
\<close>

record coor =
  example_idx :: nat
  start_offset :: int
  end_offset :: int
  is_revcomp :: bool
  score :: rat

record seqlet =
  coor :: coor
  attributes :: "(string \<times> rat) list"

definition seqlet_getitem :: "seqlet \<Rightarrow> string \<Rightarrow> error + rat" where
  "seqlet_getitem x key = getitem (map_of (attributes x)) key"

text \<open>
  Modelled from the spec: the result of multi-task seqlet creation holds
  \<^verbatim>\<open>final_seqlets\<close>; the result of metaclustering holds \<^verbatim>\<open>metacluster_indices\<close> and the
  dictionary \<^verbatim>\<open>metacluster_idx_to_activity_pattern\<close> from metacluster index to a
  comma-separated string.
\<close>

record seqlet_creation_results =
  final_seqlets :: "seqlet list"

record metaclustering_results =
  metacluster_indices :: "int list"
  metacluster_idx_to_activity_pattern :: "(int \<times> string) list"

text \<open>
  The result of \<^verbatim>\<open>np.array\<close> on a list of equally long rows: its shape and its rows.
  On an empty list \<^verbatim>\<open>np.array\<close> gives the one-dimensional array of shape \<^verbatim>\<open>(0,)\<close>.
\<close>

record ndarray =
  shape :: "nat list"
  entries :: "rat list list"

definition np_array :: "rat list list \<Rightarrow> ndarray" where
  "np_array rs =
     (case rs of
        [] \<Rightarrow> \<lparr>shape = [0], entries = []\<rparr>
      | r # _ \<Rightarrow> \<lparr>shape = [length rs, length r], entries = rs\<rparr>)"

subsection \<open>The collaborators\<close>

text \<open>
  The collaborators live in other modules (\<^verbatim>\<open>core\<close>, \<^verbatim>\<open>coordproducers\<close>,
  \<^verbatim>\<open>metaclusterers\<close>, \<^verbatim>\<open>seqlets_to_patterns\<close>); the workflow is verified for every
  behaviour they may have, so they are parameters. Each gets the arguments the workflow
  constructs it with and the arguments it is called with, and returns a value or raises.
\<close>

record coord_producer_args =
  sliding :: int
  flank :: int
  threshold_cdf :: rat
  producer_verbose :: bool

record metaclusterer_args =
  metaclusterer_min_cluster_size :: int
  threshold_for_counting_sign :: rat
  weak_threshold :: rat

record threshold_transformer_args =
  transformer_name :: string
  track_name :: string

record 'r collaborators =
  multitask_seqlet_creation ::
    "coord_producer_args \<Rightarrow> track_set \<Rightarrow> (string \<times> rat list list) list
       \<Rightarrow> (string \<times> threshold_transformer_args) list \<Rightarrow> error + seqlet_creation_results"
  metaclusterer :: "metaclusterer_args \<Rightarrow> ndarray \<Rightarrow> error + metaclustering_results"
  seqlets_to_patterns_factory ::
    "track_set \<Rightarrow> string \<Rightarrow> string list \<Rightarrow> string list \<Rightarrow> int list \<Rightarrow> string list
       \<Rightarrow> error + (seqlet list \<Rightarrow> error + 'r)"

subsection \<open>Results (\<^verbatim>\<open>SubMetaclusterResults\<close>, \<^verbatim>\<open>TfModiscoResults\<close>)\<close>

record 'r sub_metacluster_results =
  metacluster_size :: nat
  activity_pattern :: "int list"
  seqlets :: "seqlet list"
  seqlets_to_patterns_result :: 'r

text \<open>
  \<^verbatim>\<open>metacluster_idx_to_submetacluster_results\<close> is an \<^verbatim>\<open>OrderedDict\<close>: an association list
  in insertion order; \<^verbatim>\<open>d[k] = v\<close> is \<^const>\<open>AList.update\<close>, which replaces the value of a
  key already present and appends a new key at the end.
\<close>

record 'r tfmodisco_results =
  task_names :: "string list"
  multitask_seqlet_creation_results :: seqlet_creation_results
  seqlet_attribute_vectors :: ndarray
  metaclustering_results :: metaclustering_results
  metacluster_idx_to_submetacluster_results :: "(int \<times> 'r sub_metacluster_results) list"

section \<open>The workflow (\<^verbatim>\<open>TfModiscoWorkflow.__call__\<close>)\<close>

subsection \<open>Threshold derivation (lines 109 to 131)\<close>

definition total_num :: "workflow_config \<Rightarrow> array2d list \<Rightarrow> int" where
  "total_num self one_hot =
     sum_list (map (\<lambda>x. 1 + int (length x) - sliding_window_size self) one_hot)"

definition derive_laplace_threshold_cdf :: "workflow_config \<Rightarrow> array2d list \<Rightarrow> error + rat" where
  "derive_laplace_threshold_cdf self one_hot =
     (case laplace_threshold_cdf self of
        Auto \<Rightarrow>
          bindE (py_assert (total_num self one_hot > min_cluster_size self)
                   (''Increase min_cluster_size '' @ str_int (min_cluster_size self))) (\<lambda>_.
          if total_num self one_hot = 0 then Inl ZeroDivisionError
          else Inr (max (min (99 / 100)
                           (1 - of_int (min_cluster_size self) / of_int (total_num self one_hot)))
                        (1 - 500 / of_int (total_num self one_hot))))
      | Cdf c \<Rightarrow> Inr c)"

text \<open>
  The arithmetic of line 114 is exact here: the rounding of Python's doubles, and the
  \<^verbatim>\<open>OverflowError\<close> of a division of integers too large for a double, are outside the
  model.
\<close>

text \<open>The pair of the primary threshold and the weak threshold that the rest of the call uses.\<close>

definition resolve_thresholds :: "workflow_config \<Rightarrow> array2d list \<Rightarrow> (rat \<times> rat) run" where
  "resolve_thresholds self one_hot =
     and_then (lift (derive_laplace_threshold_cdf self one_hot)) (\<lambda>laplace_threshold_cdf.
     and_then (py_print (UsingLaplaceThreshold laplace_threshold_cdf)) (\<lambda>_.
     let weak_threshold_for_counting_sign =
           (case weak_threshold_for_counting_sign self of
              None \<Rightarrow> laplace_threshold_cdf
            | Some w \<Rightarrow> w)
     in if weak_threshold_for_counting_sign > laplace_threshold_cdf then
          and_then (py_print (ReducingWeakThreshold weak_threshold_for_counting_sign
                                laplace_threshold_cdf)) (\<lambda>_.
          ret (laplace_threshold_cdf, laplace_threshold_cdf))
        else ret (laplace_threshold_cdf, weak_threshold_for_counting_sign)))"

subsection \<open>Track construction (lines 148 to 171)\<close>

definition build_track_set ::
  "string list \<Rightarrow> (string \<rightharpoonup> array2d list) \<Rightarrow> (string \<rightharpoonup> array2d list) \<Rightarrow> array2d list
     \<Rightarrow> error + track_set" where
  "build_track_set = (\<lambda>task_names contrib_scores hypothetical_contribs one_hot.
     bindE (comprehension (\<lambda>key.
              bindE (getitem contrib_scores key) (\<lambda>a.
              Inr \<lparr>name = key @ ''_contrib_scores'', fwd_tracks = a,
                   rev_tracks = map reverse_both_axes a, has_pos_axis = True\<rparr>))
            task_names) (\<lambda>contrib_scores_tracks.
     bindE (comprehension (\<lambda>key.
              bindE (getitem hypothetical_contribs key) (\<lambda>a.
              Inr \<lparr>name = key @ ''_hypothetical_contribs'', fwd_tracks = a,
                   rev_tracks = map reverse_both_axes a, has_pos_axis = True\<rparr>))
            task_names) (\<lambda>hypothetical_contribs_tracks.
     let onehot_track = \<lparr>name = ''sequence'', fwd_tracks = one_hot,
                          rev_tracks = map reverse_both_axes one_hot, has_pos_axis = True\<rparr>
     in Inr \<lparr>data_tracks = contrib_scores_tracks @ hypothetical_contribs_tracks
                                @ [onehot_track]\<rparr>)))"

subsection \<open>Score summaries, seqlets and attribute vectors (lines 173 to 194)\<close>

text \<open>
  \<^verbatim>\<open>np.sum(a, axis=2)\<close> on a list of two-dimensional arrays: the list is a
  three-dimensional array only when it is non-empty and all its arrays have one shape;
  otherwise there is no axis 2 and numpy raises.
\<close>

definition np_sum_axis2 :: "array2d list \<Rightarrow> error + rat list list" where
  "np_sum_axis2 a =
     (case a of
        [] \<Rightarrow> Inl NumpyError
      | x # _ \<Rightarrow>
          if list_all (\<lambda>y. map length y = map length x) a then Inr (map (map sum_list) a)
          else Inl NumpyError)"

text \<open>\<^verbatim>\<open>OrderedDict(pairs)\<close>.\<close>

definition ordered_dict :: "('k \<times> 'v) list \<Rightarrow> ('k \<times> 'v) list" where
  "ordered_dict ps = fold (\<lambda>(k, v). AList.update k v) ps []"

definition per_position_scores ::
  "string list \<Rightarrow> (string \<rightharpoonup> array2d list) \<Rightarrow> error + (string \<times> rat list list) list" where
  "per_position_scores = (\<lambda>task_names contrib_scores.
     bindE (comprehension (\<lambda>x.
              bindE (getitem contrib_scores x) (\<lambda>a.
              bindE (np_sum_axis2 a) (\<lambda>s. Inr (x, s))))
            task_names) (\<lambda>ps.
     Inr (ordered_dict ps)))"

definition attribute_vectors_of :: "string list \<Rightarrow> seqlet list \<Rightarrow> error + ndarray" where
  "attribute_vectors_of = (\<lambda>task_names seqlets.
     bindE (comprehension (\<lambda>x.
              comprehension (\<lambda>key. seqlet_getitem x (key @ ''_label'')) task_names)
            seqlets) (\<lambda>rs.
     Inr (np_array rs)))"

subsection \<open>Per-metacluster dispatch (lines 211 to 250)\<close>

text \<open>Lines 216 to 218: look the pattern up, split it at commas, convert each piece.\<close>

definition parse_activity_pattern :: "(int \<times> string) list \<Rightarrow> int \<Rightarrow> error + int list" where
  "parse_activity_pattern d metacluster_idx =
     (case map_of d metacluster_idx of
        None \<Rightarrow> Inl (KeyError (str_int metacluster_idx))
      | Some s \<Rightarrow>
          comprehension (\<lambda>x. case py_int x of None \<Rightarrow> Inl ValueError | Some i \<Rightarrow> Inr i)
            (split_comma s))"

text \<open>
  The body of the loop for one metacluster. \<open>None\<close> is the \<^verbatim>\<open>continue\<close> of line 232,
  \<open>Some r\<close> the entry stored at line 245.
\<close>

definition process_metacluster ::
  "'r collaborators \<Rightarrow> string list \<Rightarrow> track_set \<Rightarrow> seqlet list \<Rightarrow> int list
     \<Rightarrow> (int \<times> string) list \<Rightarrow> int \<Rightarrow> nat \<Rightarrow> 'r sub_metacluster_results option run" where
  "process_metacluster collab = (\<lambda>task_names track_set seqlets metacluster_indices
       metacluster_idx_to_activity_pattern metacluster_idx metacluster_size.
     and_then (py_print (OnMetacluster metacluster_idx)) (\<lambda>_.
     and_then (py_print (MetaclusterSize metacluster_size)) (\<lambda>_.
     and_then (lift (parse_activity_pattern metacluster_idx_to_activity_pattern
                       metacluster_idx)) (\<lambda>metacluster_activities.
     and_then (lift (py_assert (length seqlets = length metacluster_indices) [])) (\<lambda>_.
     let metacluster_seqlets =
           map fst (filter (\<lambda>x. snd x = metacluster_idx) (zip seqlets metacluster_indices))
     in
     and_then (lift (unzip_pairs (filter (\<lambda>x. snd x \<noteq> 0)
                                    (zip task_names metacluster_activities))))
       (\<lambda>(relevant_task_names, relevant_task_signs).
     and_then (py_print (RelevantTasks relevant_task_names)) (\<lambda>_.
     and_then (py_print (RelevantSigns relevant_task_signs)) (\<lambda>_.
     if length relevant_task_names = 0 then
       and_then (py_print NoTasksFoundSkipping) (\<lambda>_. ret None)
     else
       and_then (lift (seqlets_to_patterns_factory collab track_set ''sequence''
                         (map (\<lambda>key. key @ ''_contrib_scores'') relevant_task_names)
                         (map (\<lambda>key. key @ ''_hypothetical_contribs'') relevant_task_names)
                         relevant_task_signs [])) (\<lambda>seqlets_to_patterns.
       and_then (lift (seqlets_to_patterns metacluster_seqlets)) (\<lambda>seqlets_to_patterns_result.
       ret (Some \<lparr>metacluster_size = metacluster_size,
                  activity_pattern = metacluster_activities,
                  seqlets = metacluster_seqlets,
                  seqlets_to_patterns_result = seqlets_to_patterns_result\<rparr>)))))))))))"

text \<open>
  The loop of line 211 over the sorted (index, size) pairs, with the ordered dictionary
  built so far.
\<close>

fun dispatch ::
  "(int \<Rightarrow> nat \<Rightarrow> 'r sub_metacluster_results option run) \<Rightarrow> (int \<times> nat) list
     \<Rightarrow> (int \<times> 'r sub_metacluster_results) list
     \<Rightarrow> (int \<times> 'r sub_metacluster_results) list run" where
  "dispatch body [] results = ret results"
| "dispatch body ((metacluster_idx, msize) # rest) results =
     and_then (body metacluster_idx msize) (\<lambda>r.
       case r of
         None \<Rightarrow> dispatch body rest results
       | Some sub \<Rightarrow> dispatch body rest (AList.update metacluster_idx sub results))"

text \<open>
  Lines 202 and 203: \<^verbatim>\<open>np.sum(metacluster_idx == metacluster_indices)\<close> counts the seqlets
  assigned to each index below \<^verbatim>\<open>num_metaclusters\<close>.
\<close>

definition metacluster_sizes_of :: "int list \<Rightarrow> int \<Rightarrow> nat list" where
  "metacluster_sizes_of indices num_metaclusters =
     map (\<lambda>metacluster_idx. length (filter (\<lambda>i. metacluster_idx = i) indices))
       (py_range num_metaclusters)"

subsection \<open>The whole call (lines 106 to 259)\<close>

definition workflow_call ::
  "workflow_config \<Rightarrow> 'r collaborators \<Rightarrow> string list \<Rightarrow> (string \<rightharpoonup> array2d list)
     \<Rightarrow> (string \<rightharpoonup> array2d list) \<Rightarrow> array2d list \<Rightarrow> 'r tfmodisco_results run" where
  "workflow_call self collab = (\<lambda>task_names contrib_scores hypothetical_contribs one_hot.
     and_then (resolve_thresholds self one_hot)
       (\<lambda>(laplace_threshold_cdf, weak_threshold_for_counting_sign).
     let coord_producer = \<lparr>sliding = sliding_window_size self, flank = flank_size self,
                            threshold_cdf = laplace_threshold_cdf,
                            producer_verbose = verbose self\<rparr>;
         metaclusterer_built = \<lparr>metaclusterer_min_cluster_size = min_cluster_size self,
                                 threshold_for_counting_sign = laplace_threshold_cdf,
                                 weak_threshold = weak_threshold_for_counting_sign\<rparr>
     in
     and_then (lift (build_track_set task_names contrib_scores hypothetical_contribs one_hot))
       (\<lambda>track_set.
     and_then (lift (per_position_scores task_names contrib_scores))
       (\<lambda>per_position_contrib_scores.
     let task_name_to_threshold_transformer =
           ordered_dict (map (\<lambda>task_name.
             (task_name, \<lparr>transformer_name = task_name @ ''_label'',
                          track_name = task_name @ ''_contrib_scores''\<rparr>)) task_names)
     in
     and_then (lift (multitask_seqlet_creation collab coord_producer track_set
                       per_position_contrib_scores task_name_to_threshold_transformer))
       (\<lambda>multitask_seqlet_creation_results.
     let seqlets = final_seqlets multitask_seqlet_creation_results in
     and_then (lift (attribute_vectors_of task_names seqlets)) (\<lambda>attribute_vectors.
     and_then (lift (metaclusterer collab metaclusterer_built attribute_vectors))
       (\<lambda>metaclustering_results.
     let metacluster_indices = metacluster_indices metaclustering_results;
         metacluster_idx_to_activity_pattern =
           metacluster_idx_to_activity_pattern metaclustering_results
     in
     and_then (lift (py_max metacluster_indices)) (\<lambda>m.
     let num_metaclusters = m + 1;
         metacluster_sizes = metacluster_sizes_of metacluster_indices num_metaclusters
     in
     and_then (if verbose self then
                 and_then (py_print (MetaclusterSizes metacluster_sizes)) (\<lambda>_.
                 py_print (IdxToActivities metacluster_idx_to_activity_pattern))
               else ret ()) (\<lambda>_.
     and_then (dispatch (process_metacluster collab task_names track_set seqlets
                           metacluster_indices metacluster_idx_to_activity_pattern)
                 (sort_key snd (py_enumerate metacluster_sizes)) [])
       (\<lambda>metacluster_idx_to_submetacluster_results.
     ret \<lparr>task_names = task_names,
          multitask_seqlet_creation_results = multitask_seqlet_creation_results,
          seqlet_attribute_vectors = attribute_vectors,
          metaclustering_results = metaclustering_results,
          metacluster_idx_to_submetacluster_results =
            metacluster_idx_to_submetacluster_results\<rparr>))))))))))"

section \<open>Persistence (\<^verbatim>\<open>save_hdf5\<close>)\<close>

subsection \<open>Groups, datasets and attributes\<close>

text \<open>
  A group of an HDF5 file holds attributes and named members; a member is a dataset or
  a group. The members are kept in the order of their creation. Creating a member under
  a name the group already has raises.
\<close>

datatype h5_data =
    Scalar int
  | IntArray "int list"
  | StringList "string list"
  | CoordList "coor list"
  | Numbers "rat list"

datatype h5_group = Group (attrs: "(string \<times> h5_data) list") (members: "(string \<times> h5_member) list")
  and h5_member = Dataset h5_data | SubGroup h5_group

definition empty_group :: h5_group where
  "empty_group = Group [] []"

text \<open>\<^verbatim>\<open>grp.attrs[k] = v\<close>.\<close>

definition set_attr :: "string \<Rightarrow> h5_data \<Rightarrow> h5_group \<Rightarrow> h5_group" where
  "set_attr k v grp = Group (AList.update k v (attrs grp)) (members grp)"

text \<open>\<^verbatim>\<open>grp.create_dataset(n, data=d)\<close>.\<close>

definition create_dataset :: "string \<Rightarrow> h5_data \<Rightarrow> h5_group \<Rightarrow> error + h5_group" where
  "create_dataset n d grp =
     (if n \<in> set (map fst (members grp)) then Inl ValueError
      else Inr (Group (attrs grp) (members grp @ [(n, Dataset d)])))"

text \<open>
  \<^verbatim>\<open>save(grp.create_group(n))\<close>: the new group is created empty, \<open>save\<close> fills it, and
  the group \<open>grp\<close> then holds it under the name \<open>n\<close>.
\<close>

definition in_new_group ::
  "string \<Rightarrow> (h5_group \<Rightarrow> error + h5_group) \<Rightarrow> h5_group \<Rightarrow> error + h5_group" where
  "in_new_group n save grp =
     (if n \<in> set (map fst (members grp)) then Inl ValueError
      else bindE (save empty_group) (\<lambda>filled.
           Inr (Group (attrs grp) (members grp @ [(n, SubGroup filled)]))))"

subsection \<open>The helpers and collaborators that write\<close>

text \<open>
  Modelled from the spec: \<^verbatim>\<open>util.save_string_list\<close> and \<^verbatim>\<open>util.save_seqlet_coords\<close>, whose
  code is not part of the workflow module. The first stores an ordered string list as
  the dataset of the given name, the second the ordered list of the seqlets'
  coordinates.
\<close>

definition save_string_list :: "string list \<Rightarrow> string \<Rightarrow> h5_group \<Rightarrow> error + h5_group" where
  "save_string_list string_list dset_name grp = create_dataset dset_name (StringList string_list) grp"

definition save_seqlet_coords :: "seqlet list \<Rightarrow> string \<Rightarrow> h5_group \<Rightarrow> error + h5_group" where
  "save_seqlet_coords given dset_name grp = create_dataset dset_name (CoordList (map coor given)) grp"

text \<open>
  The \<^verbatim>\<open>save_hdf5\<close> methods of the collaborators' results write an opaque structure into
  the group they are given; they are parameters.
\<close>

record 'r savers =
  save_seqlet_creation_results :: "seqlet_creation_results \<Rightarrow> h5_group \<Rightarrow> error + h5_group"
  save_metaclustering_results :: "metaclustering_results \<Rightarrow> h5_group \<Rightarrow> error + h5_group"
  save_seqlets_to_patterns_result :: "'r \<Rightarrow> h5_group \<Rightarrow> error + h5_group"

subsection \<open>\<^verbatim>\<open>SubMetaclusterResults.save_hdf5\<close> (lines 60 to 66)\<close>

definition sub_metacluster_results_save_hdf5 ::
  "'r savers \<Rightarrow> 'r sub_metacluster_results \<Rightarrow> h5_group \<Rightarrow> error + h5_group" where
  "sub_metacluster_results_save_hdf5 savers self grp =
     (let grp = set_attr ''size'' (Scalar (int (metacluster_size self))) grp in
      bindE (create_dataset ''activity_pattern'' (IntArray (activity_pattern self)) grp) (\<lambda>grp.
      bindE (save_seqlet_coords (seqlets self) ''seqlets'' grp) (\<lambda>grp.
      in_new_group ''seqlets_to_patterns_result''
        (save_seqlets_to_patterns_result savers (seqlets_to_patterns_result self)) grp)))"

subsection \<open>\<^verbatim>\<open>TfModiscoResults.save_hdf5\<close> (lines 35 to 48)\<close>

text \<open>The loop of line 45 over the entries of the ordered dictionary.\<close>

fun save_submetaclusters ::
  "'r savers \<Rightarrow> (int \<times> 'r sub_metacluster_results) list \<Rightarrow> h5_group \<Rightarrow> error + h5_group" where
  "save_submetaclusters savers [] grp = Inr grp"
| "save_submetaclusters savers ((idx, sub) # rest) grp =
     bindE (in_new_group (''metacluster'' @ str_int idx)
              (sub_metacluster_results_save_hdf5 savers sub) grp)
       (save_submetaclusters savers rest)"

definition tfmodisco_results_save_hdf5 ::
  "'r savers \<Rightarrow> 'r tfmodisco_results \<Rightarrow> h5_group \<Rightarrow> error + h5_group" where
  "tfmodisco_results_save_hdf5 savers self grp =
     bindE (save_string_list (task_names self) ''task_names'' grp) (\<lambda>grp.
     bindE (in_new_group ''multitask_seqlet_creation_results''
              (save_seqlet_creation_results savers (multitask_seqlet_creation_results self))
              grp) (\<lambda>grp.
     bindE (in_new_group ''metaclustering_results''
              (save_metaclustering_results savers (metaclustering_results self)) grp) (\<lambda>grp.
     in_new_group ''metacluster_idx_to_submetacluster_results''
       (save_submetaclusters savers (metacluster_idx_to_submetacluster_results self)) grp)))"

subsection \<open>Reading the structure back\<close>

text \<open>
  The structural shape of a persisted result: the task names, and for each group under
  \<^verbatim>\<open>metacluster_idx_to_submetacluster_results\<close> the index in its name, its \<^verbatim>\<open>size\<close>
  attribute and its \<^verbatim>\<open>activity_pattern\<close> dataset. \<open>None\<close> when the file does not have
  this layout.
\<close>

definition strip_prefix :: "string \<Rightarrow> string \<Rightarrow> string option" where
  "strip_prefix p s = (if take (length p) s = p then Some (drop (length p) s) else None)"

definition load_task_names :: "h5_group \<Rightarrow> string list option" where
  "load_task_names grp =
     (case map_of (members grp) ''task_names'' of
        Some (Dataset (StringList string_list)) \<Rightarrow> Some string_list
      | _ \<Rightarrow> None)"

definition load_metacluster :: "string \<times> h5_member \<Rightarrow> (int \<times> int \<times> int list) option" where
  "load_metacluster m =
     (case snd m of
        SubGroup grp \<Rightarrow>
          (case (Option.bind (strip_prefix ''metacluster'' (fst m)) py_int,
                 map_of (attrs grp) ''size'',
                 map_of (members grp) ''activity_pattern'') of
             (Some idx, Some (Scalar n), Some (Dataset (IntArray pattern))) \<Rightarrow>
               Some (idx, n, pattern)
           | _ \<Rightarrow> None)
      | Dataset _ \<Rightarrow> None)"

definition load_metaclusters :: "h5_group \<Rightarrow> (int \<times> int \<times> int list) list option" where
  "load_metaclusters grp =
     (case map_of (members grp) ''metacluster_idx_to_submetacluster_results'' of
        Some (SubGroup sub) \<Rightarrow> those (map load_metacluster (members sub))
      | _ \<Rightarrow> None)"

definition load_structure ::
  "h5_group \<Rightarrow> (string list \<times> (int \<times> int \<times> int list) list) option" where
  "load_structure grp =
     (case (load_task_names grp, load_metaclusters grp) of
        (Some names, Some ms) \<Rightarrow> Some (names, ms)
      | _ \<Rightarrow> None)"

section \<open>Track construction on shared arrays\<close>

text \<open>
  A numpy array is an object that refers to a buffer. The slice \<^verbatim>\<open>x[::-1, ::-1]\<close> copies
  nothing: it gives a new array object on the buffer of \<open>x\<close> that reads it backwards
  along both axes. Here the buffers live in a memory, an array object is the address of
  its buffer and the direction in which it reads, and every operation of lines 148 to
  171 takes the memory and returns it.
\<close>

type_synonym address = nat

type_synonym memory = "address \<rightharpoonup> array2d"

record array_object =
  buffer :: address
  backwards :: bool

text \<open>The contents of an array object, read through the memory.\<close>

definition array_value :: "memory \<Rightarrow> array_object \<Rightarrow> array2d option" where
  "array_value mem x =
     map_option (\<lambda>a. if backwards x then reverse_both_axes a else a) (mem (buffer x))"

type_synonym 'a mem_op = "memory \<Rightarrow> (error + 'a) \<times> memory"

definition mem_lift :: "error + 'a \<Rightarrow> 'a mem_op" where
  "mem_lift r mem = (r, mem)"

definition mem_bind :: "'a mem_op \<Rightarrow> ('a \<Rightarrow> 'b mem_op) \<Rightarrow> 'b mem_op" where
  "mem_bind m f mem =
     (case m mem of
        (Inl e, mem') \<Rightarrow> (Inl e, mem')
      | (Inr x, mem') \<Rightarrow> f x mem')"

text \<open>\<^verbatim>\<open>x[::-1, ::-1]\<close>: a view on the buffer of \<open>x\<close>.\<close>

definition slice_reversed :: "array_object \<Rightarrow> array_object mem_op" where
  "slice_reversed x mem = (Inr (x\<lparr>backwards := \<not> backwards x\<rparr>), mem)"

fun mem_comprehension :: "('a \<Rightarrow> 'b mem_op) \<Rightarrow> 'a list \<Rightarrow> 'b list mem_op" where
  "mem_comprehension f [] = mem_lift (Inr [])"
| "mem_comprehension f (x # xs) =
     mem_bind (f x) (\<lambda>y. mem_bind (mem_comprehension f xs) (\<lambda>ys. mem_lift (Inr (y # ys))))"

text \<open>A DataTrack and a TrackSet that hold array objects, as the Python objects do.\<close>

record shared_data_track =
  shared_name :: string
  shared_fwd_tracks :: "array_object list"
  shared_rev_tracks :: "array_object list"
  shared_has_pos_axis :: bool

definition shared_data_track_of :: "string \<Rightarrow> array_object list \<Rightarrow> shared_data_track mem_op" where
  "shared_data_track_of n fwd =
     mem_bind (mem_comprehension slice_reversed fwd) (\<lambda>reversed.
     mem_lift (Inr \<lparr>shared_name = n, shared_fwd_tracks = fwd, shared_rev_tracks = reversed,
                    shared_has_pos_axis = True\<rparr>))"

definition build_track_set_shared ::
  "string list \<Rightarrow> (string \<rightharpoonup> array_object list) \<Rightarrow> (string \<rightharpoonup> array_object list)
     \<Rightarrow> array_object list \<Rightarrow> shared_data_track list mem_op" where
  "build_track_set_shared = (\<lambda>task_names contrib_scores hypothetical_contribs one_hot.
     mem_bind (mem_comprehension (\<lambda>key.
                 mem_bind (mem_lift (getitem contrib_scores key))
                   (shared_data_track_of (key @ ''_contrib_scores'')))
               task_names) (\<lambda>contrib_scores_tracks.
     mem_bind (mem_comprehension (\<lambda>key.
                 mem_bind (mem_lift (getitem hypothetical_contribs key))
                   (shared_data_track_of (key @ ''_hypothetical_contribs'')))
               task_names) (\<lambda>hypothetical_contribs_tracks.
     mem_bind (shared_data_track_of ''sequence'' one_hot) (\<lambda>onehot_track.
     mem_lift (Inr (contrib_scores_tracks @ hypothetical_contribs_tracks
                      @ [onehot_track]))))))"

text \<open>Reading a list of array objects, and a track that holds them, through the memory.\<close>

definition array_values :: "memory \<Rightarrow> array_object list \<Rightarrow> array2d list" where
  "array_values mem xs = map (\<lambda>x. the (array_value mem x)) xs"

definition data_track_in :: "memory \<Rightarrow> shared_data_track \<Rightarrow> data_track" where
  "data_track_in mem t =
     \<lparr>name = shared_name t, fwd_tracks = array_values mem (shared_fwd_tracks t),
      rev_tracks = array_values mem (shared_rev_tracks t),
      has_pos_axis = shared_has_pos_axis t\<rparr>"

section \<open>Reading the printed output\<close>

text \<open>
  The metacluster sizes and the metacluster indices announced by the two prints that
  open each pass of the loop of line 211, in the order they were printed.
\<close>

definition sizes_announced :: "event list \<Rightarrow> nat list" where
  "sizes_announced out =
     concat (map (\<lambda>e. case e of MetaclusterSize s \<Rightarrow> [s] | _ \<Rightarrow> []) out)"

definition metaclusters_announced :: "event list \<Rightarrow> int list" where
  "metaclusters_announced out =
     concat (map (\<lambda>e. case e of OnMetacluster i \<Rightarrow> [i] | _ \<Rightarrow> []) out)"

section \<open>The specification's threshold formula\<close>

text \<open>
  These two definitions follow the words of the specification, not the code: the total
  candidate window count as the sum of \<open>max(0, 1 + sequence_length - window_size)\<close>, and
  the threshold derived from a window count \<open>T\<close>.
\<close>

definition spec_window_count :: "int \<Rightarrow> array2d list \<Rightarrow> int" where
  "spec_window_count window_size one_hot =
     sum_list (map (\<lambda>x. max 0 (1 + int (length x) - window_size)) one_hot)"

definition spec_auto_threshold :: "int \<Rightarrow> int \<Rightarrow> rat" where
  "spec_auto_threshold min_size T =
     max (min (99 / 100) (1 - of_int min_size / of_int T)) (1 - 500 / of_int T)"

section \<open>A concrete run\<close>

text \<open>
  Concrete collaborators and inputs, on which the model is evaluated: two tasks, two
  sequences of three positions and two channels, three seqlets.
\<close>

definition example_array :: array2d where
  "example_array = [[1, 0], [0, 2], [3, 0]]"

definition example_scores :: "string \<rightharpoonup> array2d list" where
  "example_scores = [''a'' \<mapsto> [example_array, example_array],
                     ''b'' \<mapsto> [example_array, example_array]]"

definition example_one_hot :: "array2d list" where
  "example_one_hot = [example_array, example_array]"

definition example_seqlet :: "nat \<Rightarrow> rat \<Rightarrow> rat \<Rightarrow> seqlet" where
  "example_seqlet i la lb =
     \<lparr>coor = \<lparr>example_idx = i, start_offset = 0, end_offset = 2, is_revcomp = False,
              score = la\<rparr>,
      attributes = [(''a_label'', la), (''b_label'', lb)]\<rparr>"

definition example_seqlets :: "seqlet list" where
  "example_seqlets = [example_seqlet 0 (1/2) 0, example_seqlet 1 (3/4) 0,
                      example_seqlet 1 0 (- 1)]"

text \<open>
  The metaclusterer of the example puts the first two seqlets into metacluster 0 and the
  third into metacluster 1, with the activity patterns given.
\<close>

definition example_collaborators :: "(int \<times> string) list \<Rightarrow> nat collaborators" where
  "example_collaborators patterns =
     \<lparr>multitask_seqlet_creation =
        (\<lambda>producer tracks scores transformers. Inr \<lparr>final_seqlets = example_seqlets\<rparr>),
      metaclusterer =
        (\<lambda>built vectors. Inr \<lparr>metacluster_indices = [0, 0, 1],
                               metacluster_idx_to_activity_pattern = patterns\<rparr>),
      seqlets_to_patterns_factory =
        (\<lambda>tracks onehot contrib_names hyp_names signs others.
           Inr (\<lambda>given. Inr (length given)))\<rparr>"

definition example_config :: "threshold_setting \<Rightarrow> int \<Rightarrow> workflow_config" where
  "example_config setting min_size =
     \<lparr>sliding_window_size = 2, flank_size = 1, min_cluster_size = min_size,
      laplace_threshold_cdf = setting, weak_threshold_for_counting_sign = Some (99 / 100),
      verbose = False\<rparr>"

definition example_patterns :: "(int \<times> string) list" where
  "example_patterns = [(0, ''1,0''), (1, ''-1,1'')]"

text \<open>What the call prints and returns on these inputs.\<close>

definition example_output :: "event list" where
  "example_output = [UsingLaplaceThreshold (3 / 4), ReducingWeakThreshold (99 / 100) (3 / 4),
     OnMetacluster 1, MetaclusterSize 1, RelevantTasks [''a'', ''b''], RelevantSigns [- 1, 1],
     OnMetacluster 0, MetaclusterSize 2, RelevantTasks [''a''], RelevantSigns [1]]"

definition example_results :: "nat tfmodisco_results" where
  "example_results =
     \<lparr>task_names = [''a'', ''b''],
      multitask_seqlet_creation_results = \<lparr>final_seqlets = example_seqlets\<rparr>,
      seqlet_attribute_vectors =
        \<lparr>shape = [3, 2], entries = [[1 / 2, 0], [3 / 4, 0], [0, - 1]]\<rparr>,
      metaclustering_results = \<lparr>metacluster_indices = [0, 0, 1],
        metacluster_idx_to_activity_pattern = example_patterns\<rparr>,
      metacluster_idx_to_submetacluster_results =
        [(1, \<lparr>metacluster_size = 1, activity_pattern = [- 1, 1],
              seqlets = [example_seqlet 1 0 (- 1)], seqlets_to_patterns_result = 1\<rparr>),
         (0, \<lparr>metacluster_size = 2, activity_pattern = [1, 0],
              seqlets = [example_seqlet 0 (1/2) 0, example_seqlet 1 (3/4) 0],
              seqlets_to_patterns_result = 2\<rparr>)]\<rparr>"

text \<open>
  The constructor defaults of the workflow (window 21, flank 10, minimum cluster size
  100, automatic threshold), and a one-hot array of a given length.
\<close>

definition default_config :: workflow_config where
  "default_config =
     \<lparr>sliding_window_size = 21, flank_size = 10, min_cluster_size = 100,
      laplace_threshold_cdf = Auto, weak_threshold_for_counting_sign = Some (99 / 100),
      verbose = True\<rparr>"

definition one_hot_of_length :: "nat \<Rightarrow> array2d" where
  "one_hot_of_length n = replicate n [1, 0, 0, 0]"

text \<open>
  Collaborator \<^verbatim>\<open>save_hdf5\<close> methods for the example, and the file that saving the
  example's result into an empty group gives.
\<close>

definition example_savers :: "nat savers" where
  "example_savers =
     \<lparr>save_seqlet_creation_results =
        (\<lambda>r grp. save_seqlet_coords (final_seqlets r) ''final_seqlets'' grp),
      save_metaclustering_results =
        (\<lambda>r grp. create_dataset ''metacluster_indices'' (IntArray (metacluster_indices r)) grp),
      save_seqlets_to_patterns_result =
        (\<lambda>r grp. Inr (set_attr ''patterns'' (Scalar (int r)) grp))\<rparr>"

definition example_file :: h5_group where
  "example_file =
     Group []
       [(''task_names'', Dataset (StringList [''a'', ''b''])),
        (''multitask_seqlet_creation_results'',
           SubGroup (Group [] [(''final_seqlets'', Dataset (CoordList (map coor example_seqlets)))])),
        (''metaclustering_results'',
           SubGroup (Group [] [(''metacluster_indices'', Dataset (IntArray [0, 0, 1]))])),
        (''metacluster_idx_to_submetacluster_results'',
           SubGroup (Group []
             [(''metacluster1'',
                 SubGroup (Group [(''size'', Scalar 1)]
                   [(''activity_pattern'', Dataset (IntArray [- 1, 1])),
                    (''seqlets'', Dataset (CoordList [coor (example_seqlet 1 0 (- 1))])),
                    (''seqlets_to_patterns_result'',
                       SubGroup (Group [(''patterns'', Scalar 1)] []))])),
              (''metacluster0'',
                 SubGroup (Group [(''size'', Scalar 2)]
                   [(''activity_pattern'', Dataset (IntArray [1, 0])),
                    (''seqlets'', Dataset (CoordList [coor (example_seqlet 0 (1/2) 0),
                                                      coor (example_seqlet 1 (3/4) 0)])),
                    (''seqlets_to_patterns_result'',
                       SubGroup (Group [(''patterns'', Scalar 2)] []))]))]))]"

text \<open>
  The same collaborators with a metaclusterer that refuses to be built with a weak
  threshold above the primary one.
\<close>

definition example_strict_collaborators :: "(int \<times> string) list \<Rightarrow> nat collaborators" where
  "example_strict_collaborators patterns =
     (example_collaborators patterns)
       \<lparr>metaclusterer :=
          (\<lambda>built vectors.
             if weak_threshold built > threshold_for_counting_sign built
             then Inl (CollaboratorError ''weak threshold above primary threshold'')
             else Inr \<lparr>metacluster_indices = [0, 0, 1],
                      metacluster_idx_to_activity_pattern = patterns\<rparr>)\<rparr>"

section \<open>Properties of the model\<close>

subsection \<open>Sequencing\<close>

lemma and_then_lift [simp]:
  "and_then (lift r) f = (case r of Inl e \<Rightarrow> ([], Inl e) | Inr x \<Rightarrow> f x)"
  by (simp add: and_then_def lift_def split: prod.splits sum.splits)

lemma and_then_print [simp]:
  "and_then (py_print e) f = (e # fst (f ()), snd (f ()))"
  by (simp add: and_then_def py_print_def split: prod.splits)

lemma and_then_Inl [simp]: "and_then (out, Inl e) f = (out, Inl e)"
  by (simp add: and_then_def)

lemma and_then_ret [simp]: "and_then (ret x) f = f x"
  by (simp add: and_then_def ret_def split: prod.splits)

lemma and_then_cases:
  assumes "and_then m f = (out, r)"
  obtains (fail) e where "m = (out, Inl e)" "r = Inl e"
  | (continue) o1 x o2 where "m = (o1, Inr x)" "f x = (o2, r)" "out = o1 @ o2"
  using assms by (auto simp: and_then_def split: prod.splits sum.splits)

lemma sizes_announced_append [simp]:
  "sizes_announced (xs @ ys) = sizes_announced xs @ sizes_announced ys"
  by (simp add: sizes_announced_def)

lemma metaclusters_announced_append [simp]:
  "metaclusters_announced (xs @ ys) = metaclusters_announced xs @ metaclusters_announced ys"
  by (simp add: metaclusters_announced_def)

lemma process_metacluster_out:
  assumes "process_metacluster collab tn ts sq ix pats idx sz = (out, r)"
  shows "sizes_announced out = [sz] \<and> metaclusters_announced out = [idx]"
  using assms
  by (auto simp: process_metacluster_def sizes_announced_def metaclusters_announced_def
      ret_def Let_def split: sum.splits prod.splits if_splits)

lemma process_metacluster_Inr:
  assumes "process_metacluster collab tn ts sq ix pats idx sz = (out, Inr r)"
  shows "\<exists>sub. r = Some sub \<and> metacluster_size sub = sz
     \<and> seqlets sub = map fst (filter (\<lambda>x. snd x = idx) (zip sq ix))
     \<and> length sq = length ix
     \<and> parse_activity_pattern pats idx = Inr (activity_pattern sub)
     \<and> filter (\<lambda>x. snd x \<noteq> 0) (zip tn (activity_pattern sub)) \<noteq> []"
  using assms
  by (auto simp: process_metacluster_def ret_def Let_def py_assert_def unzip_pairs_def
      split: sum.splits prod.splits if_splits list.splits)


lemma update_fresh: "k \<notin> fst ` set al \<Longrightarrow> AList.update k v al = al @ [(k, v)]"
  by (induction al) auto

text \<open>What the loop leaves in the log, whether it completes or raises.\<close>

lemma dispatch_out:
  assumes body: "\<And>idx sz out r. body idx sz = (out, r) \<Longrightarrow>
             sizes_announced out = [sz] \<and> metaclusters_announced out = [idx]"
    and run: "dispatch body todo acc = (out, r)"
  shows "\<exists>k \<le> length todo. sizes_announced out = take k (map snd todo)
           \<and> metaclusters_announced out = take k (map fst todo)
           \<and> (\<not> isl r \<longrightarrow> k = length todo)"
  using run
proof (induction todo arbitrary: acc out r)
  case Nil
  then show ?case
    by (simp add: ret_def sizes_announced_def metaclusters_announced_def)
next
  case (Cons p todo)
  obtain idx sz where p: "p = (idx, sz)" by (cases p)
  from Cons.prems p have
    "and_then (body idx sz) (\<lambda>r. case r of None \<Rightarrow> dispatch body todo acc
        | Some sub \<Rightarrow> dispatch body todo (AList.update idx sub acc)) = (out, r)"
    by simp
  then show ?case
  proof (cases rule: and_then_cases)
    case (fail e)
    with body [of idx sz out "Inl e"] p show ?thesis
      by (intro exI [of _ 1]) (simp add: take_Suc_conv_app_nth)
  next
    case (continue o1 x o2)
    from body [OF continue(1)] have o1: "sizes_announced o1 = [sz]"
      "metaclusters_announced o1 = [idx]" by simp_all
    from continue(2) obtain acc' where "dispatch body todo acc' = (o2, r)"
      by (cases x) auto
    from Cons.IH [OF this] obtain k where k: "k \<le> length todo"
      "sizes_announced o2 = take k (map snd todo)"
      "metaclusters_announced o2 = take k (map fst todo)"
      "\<not> isl r \<longrightarrow> k = length todo" by blast
    with o1 continue(3) p show ?thesis
      by (intro exI [of _ "Suc k"]) simp
  qed
qed

text \<open>What a completed loop leaves in the dictionary.\<close>

lemma dispatch_Inr:
  assumes body: "\<And>idx sz out r. body idx sz = (out, Inr r) \<Longrightarrow> \<exists>sub. r = Some sub \<and> P idx sz sub"
    and run: "dispatch body todo acc = (out, Inr d)"
    and fresh: "distinct (map fst todo)" "fst ` set todo \<inter> fst ` set acc = {}"
  shows "\<exists>subs. d = acc @ zip (map fst todo) subs \<and> length subs = length todo
           \<and> (\<forall>i < length todo. P (fst (todo ! i)) (snd (todo ! i)) (subs ! i))"
  using run fresh
proof (induction todo arbitrary: acc out)
  case Nil
  then show ?case by (simp add: ret_def)
next
  case (Cons p todo)
  obtain idx sz where p: "p = (idx, sz)" by (cases p)
  from Cons.prems(1) p have
    "and_then (body idx sz) (\<lambda>r. case r of None \<Rightarrow> dispatch body todo acc
        | Some sub \<Rightarrow> dispatch body todo (AList.update idx sub acc)) = (out, Inr d)"
    by simp
  then show ?case
  proof (cases rule: and_then_cases)
    case (continue o1 x o2)
    from body [OF continue(1)] obtain sub where sub: "x = Some sub" "P idx sz sub" by blast
    from Cons.prems(3) p have "idx \<notin> fst ` set acc" by auto
    then have upd: "AList.update idx sub acc = acc @ [(idx, sub)]" by (rule update_fresh)
    with continue(2) sub have run': "dispatch body todo (acc @ [(idx, sub)]) = (o2, Inr d)"
      by simp
    from Cons.prems(2,3) p have "distinct (map fst todo)"
      "fst ` set todo \<inter> fst ` set (acc @ [(idx, sub)]) = {}"
      by (auto simp: rev_image_eqI)
    from Cons.IH [OF run' this] obtain subs where subs:
      "d = (acc @ [(idx, sub)]) @ zip (map fst todo) subs" "length subs = length todo"
      "\<forall>i < length todo. P (fst (todo ! i)) (snd (todo ! i)) (subs ! i)" by blast
    show ?thesis
    proof (intro exI [of _ "sub # subs"] conjI allI impI)
      show "d = acc @ zip (map fst (p # todo)) (sub # subs)" using subs(1) p by simp
      show "length (sub # subs) = length (p # todo)" using subs(2) by simp
      fix i assume "i < length (p # todo)"
      then show "P (fst ((p # todo) ! i)) (snd ((p # todo) ! i)) ((sub # subs) ! i)"
        using subs(3) sub(2) p by (cases i) auto
    qed
  qed simp
qed


lemma resolve_thresholds_out:
  assumes "resolve_thresholds self oh = (out, r)"
  shows "sizes_announced out = [] \<and> metaclusters_announced out = []"
  using assms
  by (auto simp: resolve_thresholds_def sizes_announced_def metaclusters_announced_def
      ret_def Let_def split: sum.splits prod.splits if_splits)

lemma and_then_Inr [simp]: "and_then (out, Inr x) f = (out @ fst (f x), snd (f x))"
  by (simp add: and_then_def split: prod.splits)

lemma loop_stage:
  assumes "and_then (if v then and_then (py_print (MetaclusterSizes zs))
                                (\<lambda>_. py_print (IdxToActivities pats))
                     else ret ())
             (\<lambda>_. and_then (dispatch body todo []) (\<lambda>d. ret (mk d))) = (out, r)"
  shows "\<exists>pre o3 r3. out = pre @ o3 \<and> sizes_announced pre = []
           \<and> metaclusters_announced pre = [] \<and> dispatch body todo [] = (o3, r3)
           \<and> r = map_sum id mk r3"
proof -
  obtain o3 r3 where d: "dispatch body todo [] = (o3, r3)" by (cases "dispatch body todo []")
  have tail: "and_then (dispatch body todo []) (\<lambda>d. ret (mk d)) = (o3, map_sum id mk r3)"
    by (cases r3) (simp_all add: d ret_def)
  show ?thesis
  proof (cases v)
    case True
    with assms tail have "out = [MetaclusterSizes zs, IdxToActivities pats] @ o3"
      "r = map_sum id mk r3"
      by (auto simp: py_print_def)
    with d show ?thesis
      by (intro exI [of _ "[MetaclusterSizes zs, IdxToActivities pats]"] exI [of _ o3]
          exI [of _ r3]) (simp add: sizes_announced_def metaclusters_announced_def)
  next
    case False
    with assms tail have "out = [] @ o3" "r = map_sum id mk r3" by auto
    with d show ?thesis
      by (intro exI [of _ "[]"] exI [of _ o3] exI [of _ r3])
         (simp add: sizes_announced_def metaclusters_announced_def)
  qed
qed

lemma workflow_call_stages:
  assumes "workflow_call self collab tn cs hc oh = (out, r)"
  shows "(isl r \<and> sizes_announced out = [] \<and> metaclusters_announced out = []) \<or>
         (\<exists>pre o3 ts mscr av mr m r3.
             out = pre @ o3 \<and> sizes_announced pre = [] \<and> metaclusters_announced pre = []
           \<and> build_track_set tn cs hc oh = Inr ts
           \<and> attribute_vectors_of tn (final_seqlets mscr) = Inr av
           \<and> py_max (metacluster_indices mr) = Inr m
           \<and> dispatch (process_metacluster collab tn ts (final_seqlets mscr)
                         (metacluster_indices mr) (metacluster_idx_to_activity_pattern mr))
                (sort_key snd (py_enumerate
                   (metacluster_sizes_of (metacluster_indices mr) (m + 1)))) []
               = (o3, r3)
           \<and> r = map_sum id (\<lambda>d. \<lparr>task_names = tn,
                   multitask_seqlet_creation_results = mscr,
                   seqlet_attribute_vectors = av, metaclustering_results = mr,
                   metacluster_idx_to_submetacluster_results = d\<rparr>) r3)"
proof -
  from assms show ?thesis
    unfolding workflow_call_def
  proof (cases rule: and_then_cases)
    case (fail e)
    with resolve_thresholds_out [OF fail(1)] show ?thesis by simp
  next
    case (continue o1 x o2)
    obtain p w where x: "x = (p, w)" by (cases x)
    note o1 = resolve_thresholds_out [OF continue(1)]
    have "(isl r \<and> o2 = []) \<or>
         (\<exists>pre o3 ts mscr av mr m r3.
             o2 = pre @ o3 \<and> sizes_announced pre = [] \<and> metaclusters_announced pre = []
           \<and> build_track_set tn cs hc oh = Inr ts
           \<and> attribute_vectors_of tn (final_seqlets mscr) = Inr av
           \<and> py_max (metacluster_indices mr) = Inr m
           \<and> dispatch (process_metacluster collab tn ts (final_seqlets mscr)
                         (metacluster_indices mr) (metacluster_idx_to_activity_pattern mr))
                (sort_key snd (py_enumerate
                   (metacluster_sizes_of (metacluster_indices mr) (m + 1)))) []
               = (o3, r3)
           \<and> r = map_sum id (\<lambda>d. \<lparr>task_names = tn,
                   multitask_seqlet_creation_results = mscr,
                   seqlet_attribute_vectors = av, metaclustering_results = mr,
                   metacluster_idx_to_submetacluster_results = d\<rparr>) r3)"
      using continue(2) x
      apply (simp add: Let_def split: sum.splits)
      subgoal by auto
      subgoal by auto
      subgoal by auto
      subgoal by auto
      subgoal by auto
      subgoal by auto
      subgoal by (drule loop_stage) blast
      done
    then show ?thesis
    proof
      assume "isl r \<and> o2 = []"
      with o1 continue(3) show ?thesis by (simp add: sizes_announced_def)
    next
      assume "\<exists>pre o3 ts mscr av mr m r3.
             o2 = pre @ o3 \<and> sizes_announced pre = [] \<and> metaclusters_announced pre = []
           \<and> build_track_set tn cs hc oh = Inr ts
           \<and> attribute_vectors_of tn (final_seqlets mscr) = Inr av
           \<and> py_max (metacluster_indices mr) = Inr m
           \<and> dispatch (process_metacluster collab tn ts (final_seqlets mscr)
                         (metacluster_indices mr) (metacluster_idx_to_activity_pattern mr))
                (sort_key snd (py_enumerate
                   (metacluster_sizes_of (metacluster_indices mr) (m + 1)))) []
               = (o3, r3)
           \<and> r = map_sum id (\<lambda>d. \<lparr>task_names = tn,
                   multitask_seqlet_creation_results = mscr,
                   seqlet_attribute_vectors = av, metaclustering_results = mr,
                   metacluster_idx_to_submetacluster_results = d\<rparr>) r3"
      then obtain pre o3 ts mscr av mr m r3 where *:
        "o2 = pre @ o3" "sizes_announced pre = []" "metaclusters_announced pre = []"
        "build_track_set tn cs hc oh = Inr ts"
        "attribute_vectors_of tn (final_seqlets mscr) = Inr av"
        "py_max (metacluster_indices mr) = Inr m"
        "dispatch (process_metacluster collab tn ts (final_seqlets mscr)
                         (metacluster_indices mr) (metacluster_idx_to_activity_pattern mr))
                (sort_key snd (py_enumerate
                   (metacluster_sizes_of (metacluster_indices mr) (m + 1)))) []
               = (o3, r3)"
        "r = map_sum id (\<lambda>d. \<lparr>task_names = tn,
                   multitask_seqlet_creation_results = mscr,
                   seqlet_attribute_vectors = av, metaclustering_results = mr,
                   metacluster_idx_to_submetacluster_results = d\<rparr>) r3"
        by blast
      show ?thesis
        apply (rule disjI2)
        apply (rule exI [of _ "o1 @ pre"], rule exI [of _ o3], rule exI [of _ ts],
            rule exI [of _ mscr], rule exI [of _ av], rule exI [of _ mr], rule exI [of _ m],
            rule exI [of _ r3])
        using * o1 continue(3) apply simp
        done
    qed
  qed
qed

lemma py_enumerate_fst: "map fst (py_enumerate xs) = py_range (int (length xs))"
  by (simp add: py_enumerate_def py_range_def)

lemma py_enumerate_snd: "map snd (py_enumerate xs) = xs"
  by (simp add: py_enumerate_def py_range_def)

lemma distinct_py_range: "distinct (py_range n)"
  by (simp add: py_range_def distinct_map inj_on_def)

lemma py_enumerate_sizes:
  "(idx, sz) \<in> set (py_enumerate (metacluster_sizes_of ix n)) \<Longrightarrow>
   sz = length (filter (\<lambda>i. idx = i) ix)"
  by (auto simp: py_enumerate_def metacluster_sizes_of_def py_range_def in_set_zip)

lemma distinct_worklist: "distinct (map fst (sort_key snd (py_enumerate xs)))"
proof -
  have "distinct (map fst (py_enumerate xs))"
    by (simp add: py_enumerate_fst distinct_py_range)
  then show ?thesis by (simp add: distinct_map)
qed

lemma length_filter_zip_snd:
  "length xs = length ys \<Longrightarrow>
   length (filter (\<lambda>x. snd x = k) (zip xs ys)) = length (filter (\<lambda>i. k = i) ys)"
  by (induction xs ys rule: list_induct2) auto

lemma filter_zip_nth:
  "length xs = length ys \<Longrightarrow>
   map fst (filter (\<lambda>x. snd x = k) (zip xs ys))
     = map (\<lambda>i. xs ! i) (filter (\<lambda>i. ys ! i = k) [0..<length xs])"
proof -
  assume len: "length xs = length ys"
  then have "zip xs ys = map (\<lambda>i. (xs ! i, ys ! i)) [0..<length xs]"
    by (intro nth_equalityI) simp_all
  then show ?thesis by (simp add: filter_map comp_def)
qed

lemma comprehension_Inr:
  "comprehension f xs = Inr ys \<longleftrightarrow> list_all2 (\<lambda>x y. f x = Inr y) xs ys"
proof (induction xs arbitrary: ys)
  case Nil
  then show ?case by auto
next
  case (Cons x xs)
  show ?case
    by (cases ys) (auto simp: Cons.IH [symmetric] split: sum.splits)
qed

lemma py_max_Inr: "py_max xs = Inr m \<Longrightarrow> xs \<noteq> []"
  by (auto simp: py_max_def)

lemma attribute_vectors_of_Inr:
  assumes "attribute_vectors_of tn sq = Inr av"
  shows "entries av = map (\<lambda>x. map (\<lambda>key. the (map_of (attributes x) (key @ ''_label''))) tn) sq"
    and "\<forall>x \<in> set sq. \<forall>key \<in> set tn. map_of (attributes x) (key @ ''_label'') \<noteq> None"
    and "shape av = (if sq = [] then [0] else [length sq, length tn])"
proof -
  from assms obtain rs where rs: "list_all2 (\<lambda>x r. list_all2 (\<lambda>key v.
       seqlet_getitem x (key @ ''_label'') = Inr v) tn r) sq rs" and av: "av = np_array rs"
    by (auto simp: attribute_vectors_of_def bindE_def comprehension_Inr split: sum.splits)
  have row: "r = map (\<lambda>key. the (map_of (attributes x) (key @ ''_label''))) tn
      \<and> (\<forall>key \<in> set tn. map_of (attributes x) (key @ ''_label'') \<noteq> None)"
    if "list_all2 (\<lambda>key v. seqlet_getitem x (key @ ''_label'') = Inr v) tn r" for x r
    using that
    by (induction tn r rule: list_all2_induct)
       (auto simp: seqlet_getitem_def getitem_def split: option.splits)
  from rs have rs_eq: "rs = map (\<lambda>x. map (\<lambda>key. the (map_of (attributes x) (key @ ''_label''))) tn) sq"
    and ok: "\<forall>x \<in> set sq. \<forall>key \<in> set tn. map_of (attributes x) (key @ ''_label'') \<noteq> None"
    by (induction sq rs rule: list_all2_induct) (use row in auto)
  from ok show "\<forall>x \<in> set sq. \<forall>key \<in> set tn. map_of (attributes x) (key @ ''_label'') \<noteq> None" .
  from rs_eq av show "entries av = map (\<lambda>x. map (\<lambda>key. the (map_of (attributes x) (key @ ''_label''))) tn) sq"
    by (cases sq) (simp_all add: np_array_def)
  from rs_eq av show "shape av = (if sq = [] then [0] else [length sq, length tn])"
    by (cases sq) (simp_all add: np_array_def)
qed

text \<open>A completed call, taken apart.\<close>

lemma workflow_call_Inr:
  assumes "workflow_call self collab tn cs hc oh = (out, Inr res)"
  shows "\<exists>pre o3 ts m.
      out = pre @ o3 \<and> sizes_announced pre = [] \<and> metaclusters_announced pre = []
    \<and> task_names res = tn
    \<and> build_track_set tn cs hc oh = Inr ts
    \<and> attribute_vectors_of tn (final_seqlets (multitask_seqlet_creation_results res))
         = Inr (seqlet_attribute_vectors res)
    \<and> py_max (metacluster_indices (metaclustering_results res)) = Inr m
    \<and> dispatch (process_metacluster collab tn ts
                  (final_seqlets (multitask_seqlet_creation_results res))
                  (metacluster_indices (metaclustering_results res))
                  (metacluster_idx_to_activity_pattern (metaclustering_results res)))
         (sort_key snd (py_enumerate (metacluster_sizes_of
            (metacluster_indices (metaclustering_results res)) (m + 1)))) []
        = (o3, Inr (metacluster_idx_to_submetacluster_results res))"
proof -
  from workflow_call_stages [OF assms] obtain pre o3 ts mscr av mr m r3 where *:
    "out = pre @ o3" "sizes_announced pre = []" "metaclusters_announced pre = []"
    "build_track_set tn cs hc oh = Inr ts"
    "attribute_vectors_of tn (final_seqlets mscr) = Inr av"
    "py_max (metacluster_indices mr) = Inr m"
    "dispatch (process_metacluster collab tn ts (final_seqlets mscr)
        (metacluster_indices mr) (metacluster_idx_to_activity_pattern mr))
      (sort_key snd (py_enumerate (metacluster_sizes_of (metacluster_indices mr) (m + 1)))) []
       = (o3, r3)"
    "Inr res = map_sum id (\<lambda>d. \<lparr>task_names = tn,
        multitask_seqlet_creation_results = mscr,
        seqlet_attribute_vectors = av, metaclustering_results = mr,
        metacluster_idx_to_submetacluster_results = d\<rparr>) r3"
    by auto
  from *(8) obtain d where d: "r3 = Inr d" "res = \<lparr>task_names = tn,
        multitask_seqlet_creation_results = mscr,
        seqlet_attribute_vectors = av, metaclustering_results = mr,
        metacluster_idx_to_submetacluster_results = d\<rparr>"
    by (cases r3) auto
  with * show ?thesis by auto
qed

text \<open>The dictionary of a completed call, entry by entry.\<close>

lemma workflow_call_entries:
  assumes "workflow_call self collab tn cs hc oh = (out, Inr res)"
  shows "\<exists>m subs. py_max (metacluster_indices (metaclustering_results res)) = Inr m
    \<and> metacluster_idx_to_submetacluster_results res
        = zip (map fst (sort_key snd (py_enumerate (metacluster_sizes_of
            (metacluster_indices (metaclustering_results res)) (m + 1))))) subs
    \<and> map metacluster_size subs
        = map snd (sort_key snd (py_enumerate (metacluster_sizes_of
            (metacluster_indices (metaclustering_results res)) (m + 1))))
    \<and> (\<forall>e \<in> set (metacluster_idx_to_submetacluster_results res).
          seqlets (snd e) = map fst (filter (\<lambda>x. snd x = fst e)
             (zip (final_seqlets (multitask_seqlet_creation_results res))
                  (metacluster_indices (metaclustering_results res))))
        \<and> length (final_seqlets (multitask_seqlet_creation_results res))
             = length (metacluster_indices (metaclustering_results res)))"
proof -
  let ?sq = "final_seqlets (multitask_seqlet_creation_results res)"
  let ?ix = "metacluster_indices (metaclustering_results res)"
  let ?P = "\<lambda>idx sz sub. metacluster_size sub = sz
     \<and> seqlets sub = map fst (filter (\<lambda>x. snd x = idx) (zip ?sq ?ix))
     \<and> length ?sq = length ?ix"
  from workflow_call_Inr [OF assms] obtain o3 ts m where m: "py_max ?ix = Inr m"
    and run: "dispatch (process_metacluster collab tn ts ?sq ?ix
                  (metacluster_idx_to_activity_pattern (metaclustering_results res)))
         (sort_key snd (py_enumerate (metacluster_sizes_of ?ix (m + 1)))) []
        = (o3, Inr (metacluster_idx_to_submetacluster_results res))"
    by blast
  let ?todo = "sort_key snd (py_enumerate (metacluster_sizes_of ?ix (m + 1)))"
  let ?body = "process_metacluster collab tn ts ?sq ?ix
          (metacluster_idx_to_activity_pattern (metaclustering_results res))"
  have "\<exists>subs. metacluster_idx_to_submetacluster_results res = [] @ zip (map fst ?todo) subs
     \<and> length subs = length ?todo
     \<and> (\<forall>i < length ?todo. ?P (fst (?todo ! i)) (snd (?todo ! i)) (subs ! i))"
  proof (rule dispatch_Inr [where P = ?P and body = ?body and todo = ?todo and acc = "[]"
        and out = o3])
    show "dispatch ?body ?todo [] = (o3, Inr (metacluster_idx_to_submetacluster_results res))"
      by (rule run)
    show "distinct (map fst ?todo)" by (rule distinct_worklist)
    show "fst ` set ?todo \<inter> fst ` set [] = {}" by simp
    fix idx sz out' r
    assume "?body idx sz = (out', Inr r)"
    from process_metacluster_Inr [OF this]
    show "\<exists>sub. r = Some sub \<and> ?P idx sz sub" by blast
  qed
  then obtain subs where subs:
    "metacluster_idx_to_submetacluster_results res = zip (map fst ?todo) subs"
    "length subs = length ?todo"
    "\<forall>i < length ?todo. ?P (fst (?todo ! i)) (snd (?todo ! i)) (subs ! i)"
    by auto
  have sizes: "map metacluster_size subs = map snd ?todo"
    using subs(2,3) by (intro nth_equalityI) simp_all
  have each: "seqlets (snd e) = map fst (filter (\<lambda>x. snd x = fst e) (zip ?sq ?ix))
        \<and> length ?sq = length ?ix"
    if "e \<in> set (metacluster_idx_to_submetacluster_results res)" for e
  proof -
    from that subs(1,2) obtain i where "i < length ?todo" "e = (fst (?todo ! i), subs ! i)"
      by (auto simp: in_set_zip)
    with subs(3) show ?thesis by simp
  qed
  from m subs(1) sizes each show ?thesis by blast
qed


lemma workflow_call_announced:
  assumes "workflow_call self collab tn cs hc oh = (out, r)"
  shows "sorted (sizes_announced out)"
  using workflow_call_stages [OF assms]
proof (elim disjE exE conjE)
  assume "sizes_announced out = []"
  then show ?thesis by simp
next
  fix pre o3 ts mscr av mr m r3
  let ?body = "process_metacluster collab tn ts (final_seqlets mscr)
                 (metacluster_indices mr) (metacluster_idx_to_activity_pattern mr)"
  let ?todo = "sort_key snd (py_enumerate (metacluster_sizes_of (metacluster_indices mr) (m + 1)))"
  assume out: "out = pre @ o3" "sizes_announced pre = []"
    and run: "dispatch ?body ?todo [] = (o3, r3)"
  have "\<exists>k \<le> length ?todo. sizes_announced o3 = take k (map snd ?todo)
           \<and> metaclusters_announced o3 = take k (map fst ?todo)
           \<and> (\<not> isl r3 \<longrightarrow> k = length ?todo)"
    by (rule dispatch_out [where body = ?body, OF _ run]) (rule process_metacluster_out)
  then obtain k where "sizes_announced o3 = take k (map snd ?todo)" by blast
  with out show ?thesis by (simp add: sorted_wrt_take)
qed

lemma workflow_call_Inr_announced:
  assumes "workflow_call self collab tn cs hc oh = (out, Inr res)"
  shows "\<exists>m. py_max (metacluster_indices (metaclustering_results res)) = Inr m
    \<and> sizes_announced out = map snd (sort_key snd (py_enumerate (metacluster_sizes_of
            (metacluster_indices (metaclustering_results res)) (m + 1))))
    \<and> metaclusters_announced out = map fst (sort_key snd (py_enumerate (metacluster_sizes_of
            (metacluster_indices (metaclustering_results res)) (m + 1))))"
proof -
  let ?ix = "metacluster_indices (metaclustering_results res)"
  from workflow_call_Inr [OF assms] obtain pre o3 ts m where *:
    "out = pre @ o3" "sizes_announced pre = []" "metaclusters_announced pre = []"
    "py_max ?ix = Inr m"
    "dispatch (process_metacluster collab tn ts
                  (final_seqlets (multitask_seqlet_creation_results res)) ?ix
                  (metacluster_idx_to_activity_pattern (metaclustering_results res)))
         (sort_key snd (py_enumerate (metacluster_sizes_of ?ix (m + 1)))) []
       = (o3, Inr (metacluster_idx_to_submetacluster_results res))"
    by blast
  let ?body = "process_metacluster collab tn ts
                  (final_seqlets (multitask_seqlet_creation_results res)) ?ix
                  (metacluster_idx_to_activity_pattern (metaclustering_results res))"
  let ?todo = "sort_key snd (py_enumerate (metacluster_sizes_of ?ix (m + 1)))"
  have "\<exists>k \<le> length ?todo. sizes_announced o3 = take k (map snd ?todo)
           \<and> metaclusters_announced o3 = take k (map fst ?todo)
           \<and> (\<not> isl (Inr (metacluster_idx_to_submetacluster_results res) ::
                   error + (int \<times> 'a sub_metacluster_results) list) \<longrightarrow> k = length ?todo)"
    by (rule dispatch_out [where body = ?body, OF _ *(5)]) (rule process_metacluster_out)
  then have "sizes_announced o3 = map snd ?todo" "metaclusters_announced o3 = map fst ?todo"
    by auto
  with * show ?thesis by simp
qed

subsection \<open>The window count\<close>

lemma total_num_clamped:
  "\<forall>x \<in> set one_hot. sliding_window_size self \<le> 1 + int (length x) \<Longrightarrow>
   total_num self one_hot = spec_window_count (sliding_window_size self) one_hot"
  unfolding total_num_def spec_window_count_def
  by (induction one_hot) auto

lemma total_num_uniform:
  "\<forall>x \<in> set one_hot. length x = n \<Longrightarrow>
   total_num self one_hot = int (length one_hot) * (1 + int n - sliding_window_size self)"
  unfolding total_num_def
  by (induction one_hot) (auto simp: algebra_simps)

subsection \<open>The concrete run\<close>

lemma example_run:
  "workflow_call (example_config Auto 1) (example_collaborators example_patterns)
     [''a'', ''b''] example_scores example_scores example_one_hot
   = (example_output, Inr example_results)"
  by code_simp

lemma example_strict_run:
  "workflow_call (example_config Auto 1) (example_strict_collaborators example_patterns)
     [''a'', ''b''] example_scores example_scores example_one_hot
   = (example_output, Inr example_results)"
  by code_simp

subsection \<open>Track construction\<close>

lemma comprehension_total:
  "(\<And>x. x \<in> set xs \<Longrightarrow> f x = Inr (g x)) \<Longrightarrow> comprehension f xs = Inr (map g xs)"
  by (induction xs) auto

lemma reverse_both_axes_nth:
  assumes "p < length x" "c < length (x ! (length x - Suc p))"
  shows "reverse_both_axes x ! p ! c
           = x ! (length x - Suc p) ! (length (x ! (length x - Suc p)) - Suc c)"
  using assms by (simp add: reverse_both_axes_def rev_nth)

lemma reverse_both_axes_twice [simp]: "reverse_both_axes (reverse_both_axes x) = x"
  by (simp add: reverse_both_axes_def rev_map)

lemma mem_comprehension_frame:
  assumes "\<And>x m. snd (f x m) = m"
  shows "snd (mem_comprehension f xs mem) = mem"
proof (induction xs arbitrary: mem)
  case Nil
  show ?case by (simp add: mem_lift_def)
next
  case (Cons x xs)
  obtain r where r: "f x mem = (r, mem)" using assms [of x mem] by (cases "f x mem") simp
  obtain r' where r': "mem_comprehension f xs mem = (r', mem)"
    using Cons.IH [of mem] by (cases "mem_comprehension f xs mem") simp
  show ?case
    by (cases r; cases r') (simp_all add: mem_bind_def r r' mem_lift_def)
qed

lemma shared_data_track_of_frame: "snd (shared_data_track_of n fwd mem) = mem"
proof -
  have "snd (mem_comprehension slice_reversed fwd mem) = mem"
    by (rule mem_comprehension_frame) (simp add: slice_reversed_def)
  then obtain r where "mem_comprehension slice_reversed fwd mem = (r, mem)"
    by (cases "mem_comprehension slice_reversed fwd mem") simp
  then show ?thesis
    by (cases r) (simp_all add: shared_data_track_of_def mem_bind_def mem_lift_def)
qed

lemma lookup_then_track_frame:
  "snd (mem_bind (mem_lift (getitem d key)) (shared_data_track_of n) mem) = mem"
  by (cases "getitem d key")
     (simp_all add: mem_bind_def mem_lift_def shared_data_track_of_frame)

text \<open>The operations of track construction only read: each returns the memory it got.\<close>

lemma mem_comprehension_pure:
  assumes "\<And>x m. f x m = (g x, m)"
  shows "mem_comprehension f xs mem = (comprehension g xs, mem)"
proof (induction xs)
  case Nil
  show ?case by (simp add: mem_lift_def)
next
  case (Cons x xs)
  have "f x mem = (g x, mem)" by (rule assms)
  with Cons.IH show ?case
    by (cases "g x"; cases "comprehension g xs") (simp_all add: mem_bind_def mem_lift_def)
qed

lemma slices_pure:
  "mem_comprehension slice_reversed fwd mem
     = (Inr (map (\<lambda>x. x\<lparr>backwards := \<not> backwards x\<rparr>) fwd), mem)"
proof -
  have "mem_comprehension slice_reversed fwd mem
      = (comprehension (\<lambda>x. Inr (x\<lparr>backwards := \<not> backwards x\<rparr>)) fwd, mem)"
    by (rule mem_comprehension_pure) (simp add: slice_reversed_def)
  then show ?thesis by (simp add: comprehension_total)
qed

lemma shared_data_track_of_pure:
  "shared_data_track_of n fwd mem
     = (Inr \<lparr>shared_name = n, shared_fwd_tracks = fwd,
             shared_rev_tracks = map (\<lambda>x. x\<lparr>backwards := \<not> backwards x\<rparr>) fwd,
             shared_has_pos_axis = True\<rparr>, mem)"
  by (simp add: shared_data_track_of_def mem_bind_def slices_pure mem_lift_def)

lemma array_values_reversed:
  assumes "\<forall>x \<in> set fwd. buffer x \<in> dom mem"
  shows "array_values mem (map (\<lambda>x. x\<lparr>backwards := \<not> backwards x\<rparr>) fwd)
           = map reverse_both_axes (array_values mem fwd)"
  using assms by (auto simp: array_values_def array_value_def)

lemma comprehension_map_sum:
  "comprehension (\<lambda>x. map_sum id h (g x)) xs = map_sum id (map h) (comprehension g xs)"
  by (induction xs) (auto split: sum.splits)

lemma comprehension_cong:
  "(\<And>x. x \<in> set xs \<Longrightarrow> f x = g x) \<Longrightarrow> comprehension f xs = comprehension g xs"
proof (induction xs)
  case Nil
  show ?case by simp
next
  case (Cons a xs)
  then have "f a = g a" "comprehension f xs = comprehension g xs" by simp_all
  then show ?case by (cases "g a") simp_all
qed

text \<open>
  Read through the memory, the tracks built from array objects are the tracks that
  \<^const>\<open>build_track_set\<close> builds from the arrays' contents.
\<close>

lemma tracks_of_dict_read:
  assumes "\<forall>key \<in> set tn. \<forall>xs. d key = Some xs \<longrightarrow> (\<forall>x \<in> set xs. buffer x \<in> dom mem)"
  shows "map_sum id (map (data_track_in mem))
           (comprehension (\<lambda>key. bindE (getitem d key) (\<lambda>fwd.
              Inr \<lparr>shared_name = key @ suffix, shared_fwd_tracks = fwd,
                   shared_rev_tracks = map (\<lambda>x. x\<lparr>backwards := \<not> backwards x\<rparr>) fwd,
                   shared_has_pos_axis = True\<rparr>)) tn)
       = comprehension (\<lambda>key. bindE (getitem (\<lambda>k. map_option (array_values mem) (d k)) key)
           (\<lambda>a. Inr \<lparr>name = key @ suffix, fwd_tracks = a,
                      rev_tracks = map reverse_both_axes a, has_pos_axis = True\<rparr>)) tn"
proof -
  have "comprehension (\<lambda>key. bindE (getitem (\<lambda>k. map_option (array_values mem) (d k)) key)
           (\<lambda>a. Inr \<lparr>name = key @ suffix, fwd_tracks = a,
                      rev_tracks = map reverse_both_axes a, has_pos_axis = True\<rparr>)) tn
      = comprehension (\<lambda>key. map_sum id (data_track_in mem) (bindE (getitem d key) (\<lambda>fwd.
              Inr \<lparr>shared_name = key @ suffix, shared_fwd_tracks = fwd,
                   shared_rev_tracks = map (\<lambda>x. x\<lparr>backwards := \<not> backwards x\<rparr>) fwd,
                   shared_has_pos_axis = True\<rparr>))) tn"
  proof (rule comprehension_cong)
    fix key assume "key \<in> set tn"
    with assms show "bindE (getitem (\<lambda>k. map_option (array_values mem) (d k)) key)
           (\<lambda>a. Inr \<lparr>name = key @ suffix, fwd_tracks = a,
                      rev_tracks = map reverse_both_axes a, has_pos_axis = True\<rparr>)
      = map_sum id (data_track_in mem) (bindE (getitem d key) (\<lambda>fwd.
              Inr \<lparr>shared_name = key @ suffix, shared_fwd_tracks = fwd,
                   shared_rev_tracks = map (\<lambda>x. x\<lparr>backwards := \<not> backwards x\<rparr>) fwd,
                   shared_has_pos_axis = True\<rparr>))"
      by (cases "d key")
         (simp_all add: getitem_def bindE_def data_track_in_def array_values_reversed)
  qed
  then show ?thesis by (simp add: comprehension_map_sum)
qed

lemma build_track_set_shared_reads:
  assumes "\<forall>key \<in> set tn. \<forall>xs. cs key = Some xs \<longrightarrow> (\<forall>x \<in> set xs. buffer x \<in> dom mem)"
    and "\<forall>key \<in> set tn. \<forall>xs. hc key = Some xs \<longrightarrow> (\<forall>x \<in> set xs. buffer x \<in> dom mem)"
    and "\<forall>x \<in> set oh. buffer x \<in> dom mem"
  shows "map_sum id (\<lambda>ts. \<lparr>data_tracks = map (data_track_in mem) ts\<rparr>)
           (fst (build_track_set_shared tn cs hc oh mem))
       = build_track_set tn (\<lambda>k. map_option (array_values mem) (cs k))
           (\<lambda>k. map_option (array_values mem) (hc k)) (array_values mem oh)"
proof -
  let ?flip = "map (\<lambda>x. x\<lparr>backwards := \<not> backwards x\<rparr>)"
  let ?g = "\<lambda>d suffix key. bindE (getitem d key) (\<lambda>fwd.
              Inr \<lparr>shared_name = key @ suffix, shared_fwd_tracks = fwd,
                   shared_rev_tracks = ?flip fwd, shared_has_pos_axis = True\<rparr>)"
  have pure: "mem_comprehension (\<lambda>key. mem_bind (mem_lift (getitem d key))
                   (shared_data_track_of (key @ suffix))) tn m
              = (comprehension (?g d suffix) tn, m)" for d suffix m
  proof (rule mem_comprehension_pure)
    fix key m'
    show "mem_bind (mem_lift (getitem d key)) (shared_data_track_of (key @ suffix)) m'
        = (?g d suffix key, m')"
      by (cases "getitem d key")
         (simp_all add: mem_bind_def mem_lift_def bindE_def shared_data_track_of_pure)
  qed
  note c = tracks_of_dict_read [OF assms(1), of "''_contrib_scores''"]
  note h = tracks_of_dict_read [OF assms(2), of "''_hypothetical_contribs''"]
  show ?thesis
    unfolding build_track_set_shared_def build_track_set_def
    apply (simp only: mem_bind_def pure shared_data_track_of_pure mem_lift_def flip: c h)
    apply (cases "comprehension (?g cs ''_contrib_scores'') tn";
           cases "comprehension (?g hc ''_hypothetical_contribs'') tn")
       apply (simp_all add: bindE_def data_track_in_def array_values_reversed [OF assms(3)])
    done
qed

subsection \<open>Decimal integers and persistence\<close>

lemma digit_char_props:
  assumes "d < 10"
  shows "is_digit (digit_char d)" "digit_val (digit_char d) = d" "\<not> is_space (digit_char d)"
    "digit_char d \<noteq> CHR ''-''" "digit_char d \<noteq> CHR ''+''" "digit_char d \<noteq> CHR ''_''"
  using assms
  by (auto simp: is_digit_def digit_val_def is_space_def digit_char_def Let_def
      dest!: arg_cong [where f = "of_char :: char \<Rightarrow> nat"])

lemma str_nat_digits: "c \<in> set (str_nat n) \<Longrightarrow> \<exists>d < 10. c = digit_char d"
proof (induction n rule: str_nat.induct)
  case (1 n)
  show ?case
  proof (cases "n < 10")
    case True
    with "1.prems" show ?thesis by (subst (asm) str_nat.simps) auto
  next
    case False
    with "1.prems" have "c \<in> set (str_nat (n div 10)) \<or> c = digit_char (n mod 10)"
      by (subst (asm) str_nat.simps) auto
    with False "1.IH" show ?thesis
      by (metis mod_less_divisor zero_less_numeral)
  qed
qed

lemma str_nat_chars:
  assumes "c \<in> set (str_nat n)"
  shows "is_digit c" "\<not> is_space c" "c \<noteq> CHR ''-''" "c \<noteq> CHR ''+''"
proof -
  from str_nat_digits [OF assms] obtain d where "d < 10" "c = digit_char d" by blast
  then show "is_digit c" "\<not> is_space c" "c \<noteq> CHR ''-''" "c \<noteq> CHR ''+''"
    by (simp_all add: digit_char_props)
qed

lemma str_nat_nonempty: "str_nat n \<noteq> []"
  by (subst str_nat.simps) simp

lemma py_digits_all_digits:
  "\<forall>c \<in> set cs. \<exists>d < 10. c = digit_char d \<Longrightarrow>
   py_digits cs acc = Some (foldl (\<lambda>a c. 10 * a + digit_val c) acc cs)"
  by (induction cs arbitrary: acc) (auto simp: digit_char_props)

lemma foldl_str_nat: "foldl (\<lambda>a c. 10 * a + digit_val c) 0 (str_nat n) = n"
proof (induction n rule: str_nat.induct)
  case (1 n)
  show ?case
  proof (cases "n < 10")
    case True
    then show ?thesis by (subst str_nat.simps) (simp add: digit_char_props)
  next
    case False
    with "1.IH" show ?thesis
      by (subst str_nat.simps) (simp add: digit_char_props)
  qed
qed

lemma py_nat_str_nat: "py_nat (str_nat n) = Some n"
proof -
  obtain c cs where s: "str_nat n = c # cs" using str_nat_nonempty [of n] by (cases "str_nat n") auto
  have all: "\<forall>c \<in> set (str_nat n). \<exists>d < 10. c = digit_char d" using str_nat_digits by blast
  with s have c: "is_digit c" by (auto simp: digit_char_props)
  from all s have "py_digits (c # cs) 0 = Some (foldl (\<lambda>a c. 10 * a + digit_val c) 0 (c # cs))"
    by (intro py_digits_all_digits) simp
  with c have "py_digits cs (digit_val c) = Some (foldl (\<lambda>a c. 10 * a + digit_val c) 0 (str_nat n))"
    by (simp add: s)
  then have "py_digits cs (digit_val c) = Some n" by (simp only: foldl_str_nat)
  with c s show ?thesis by (simp add: py_nat_def)
qed

lemma strip_no_space:
  assumes "s \<noteq> []" "\<not> is_space (hd s)" "\<not> is_space (last s)"
  shows "strip s = s"
proof -
  from assms have "dropWhile is_space s = s" by (cases s) auto
  moreover from assms have "dropWhile is_space (rev s) = rev s"
    by (cases "rev s") (auto simp: last_rev [symmetric] hd_rev)
  ultimately show ?thesis by (simp add: strip_def)
qed

lemma strip_str_nat: "strip (str_nat n) = str_nat n"
proof (rule strip_no_space)
  show ne: "str_nat n \<noteq> []" by (rule str_nat_nonempty)
  then have "hd (str_nat n) \<in> set (str_nat n)" "last (str_nat n) \<in> set (str_nat n)" by simp_all
  then show "\<not> is_space (hd (str_nat n))" "\<not> is_space (last (str_nat n))"
    by (simp_all add: str_nat_chars)
qed

lemma strip_minus_str_nat: "strip (CHR ''-'' # str_nat n) = CHR ''-'' # str_nat n"
proof (rule strip_no_space)
  have "last (str_nat n) \<in> set (str_nat n)" using str_nat_nonempty by simp
  then have "\<not> is_space (last (str_nat n))" by (rule str_nat_chars)
  then show "\<not> is_space (last (CHR ''-'' # str_nat n))" by (simp add: str_nat_nonempty)
qed (simp_all add: is_space_def)

lemma py_int_str_int: "py_int (str_int i) = Some i"
proof (cases "i < 0")
  case True
  then show ?thesis
    by (simp add: py_int_def str_int_def strip_minus_str_nat py_nat_str_nat)
next
  case False
  obtain c cs where s: "str_nat (nat i) = c # cs"
    using str_nat_nonempty [of "nat i"] by (cases "str_nat (nat i)") auto
  then have "c \<in> set (str_nat (nat i))" by simp
  then have c: "c \<noteq> CHR ''-''" "c \<noteq> CHR ''+''"
    by (simp_all add: str_nat_chars)
  have st: "strip (c # cs) = c # cs" using strip_str_nat [of "nat i"] by (simp add: s)
  have "py_int (str_nat (nat i)) = map_option int (py_nat (str_nat (nat i)))"
    using c by (simp add: py_int_def s st)
  with False show ?thesis by (simp add: str_int_def py_nat_str_nat)
qed

lemma strip_prefix_append: "strip_prefix p (p @ s) = Some s"
  by (simp add: strip_prefix_def)


lemma bindE_Inr: "bindE m f = Inr y \<longleftrightarrow> (\<exists>x. m = Inr x \<and> f x = Inr y)"
  by (cases m) (simp_all add: bindE_def)

lemma create_dataset_Inr:
  "create_dataset n d grp = Inr grp' \<longleftrightarrow>
     n \<notin> fst ` set (members grp) \<and> grp' = Group (attrs grp) (members grp @ [(n, Dataset d)])"
  by (auto simp: create_dataset_def)

lemma in_new_group_Inr:
  "in_new_group n save grp = Inr grp' \<longleftrightarrow>
     n \<notin> fst ` set (members grp)
     \<and> (\<exists>filled. save empty_group = Inr filled
            \<and> grp' = Group (attrs grp) (members grp @ [(n, SubGroup filled)]))"
  by (auto simp: in_new_group_def bindE_Inr)

text \<open>What one metacluster's group holds.\<close>

lemma sub_metacluster_results_save_hdf5_Inr:
  assumes "sub_metacluster_results_save_hdf5 savers sub empty_group = Inr c"
  shows "attrs c = [(''size'', Scalar (int (metacluster_size sub)))]"
    and "\<exists>p. members c = [(''activity_pattern'', Dataset (IntArray (activity_pattern sub))),
            (''seqlets'', Dataset (CoordList (map coor (seqlets sub)))),
            (''seqlets_to_patterns_result'', SubGroup p)]"
  using assms
  by (auto simp: sub_metacluster_results_save_hdf5_def Let_def bindE_Inr create_dataset_Inr
      in_new_group_Inr save_seqlet_coords_def set_attr_def empty_group_def)

lemma load_metacluster_saved:
  assumes "sub_metacluster_results_save_hdf5 savers sub empty_group = Inr c"
  shows "load_metacluster (''metacluster'' @ str_int idx, SubGroup c)
           = Some (idx, int (metacluster_size sub), activity_pattern sub)"
proof -
  from sub_metacluster_results_save_hdf5_Inr [OF assms] obtain p where
    "attrs c = [(''size'', Scalar (int (metacluster_size sub)))]"
    "members c = [(''activity_pattern'', Dataset (IntArray (activity_pattern sub))),
            (''seqlets'', Dataset (CoordList (map coor (seqlets sub)))),
            (''seqlets_to_patterns_result'', SubGroup p)]"
    by blast
  moreover have "Option.bind (strip_prefix ''metacluster'' (''metacluster'' @ str_int idx)) py_int
      = Some idx"
    by (simp only: strip_prefix_append) (simp add: py_int_str_int)
  ultimately show ?thesis
    by (simp add: load_metacluster_def)
qed

text \<open>What the loop of line 45 adds to the group it writes into.\<close>

lemma save_submetaclusters_Inr:
  assumes "save_submetaclusters savers d grp = Inr grp'"
  shows "\<exists>ms. members grp' = members grp @ ms \<and> attrs grp' = attrs grp
     \<and> list_all2 (\<lambda>e m. fst m = ''metacluster'' @ str_int (fst e)
          \<and> (\<exists>c. snd m = SubGroup c
                \<and> sub_metacluster_results_save_hdf5 savers (snd e) empty_group = Inr c)) d ms"
  using assms
proof (induction d arbitrary: grp)
  case Nil
  then show ?case by simp
next
  case (Cons e d)
  obtain idx sub where e: "e = (idx, sub)" by (cases e)
  from Cons.prems e obtain c where c:
    "sub_metacluster_results_save_hdf5 savers sub empty_group = Inr c"
    and rest: "save_submetaclusters savers d
        (Group (attrs grp) (members grp @ [(''metacluster'' @ str_int idx, SubGroup c)]))
      = Inr grp'"
    by (auto simp: bindE_Inr in_new_group_Inr)
  from Cons.IH [OF rest] obtain ms where ms:
    "members grp' = (members grp @ [(''metacluster'' @ str_int idx, SubGroup c)]) @ ms"
    "attrs grp' = attrs grp"
    "list_all2 (\<lambda>e m. fst m = ''metacluster'' @ str_int (fst e)
          \<and> (\<exists>c. snd m = SubGroup c
                \<and> sub_metacluster_results_save_hdf5 savers (snd e) empty_group = Inr c)) d ms"
    by auto
  with c e show ?case
    by (intro exI [of _ "(''metacluster'' @ str_int idx, SubGroup c) # ms"]) simp
qed

lemma those_load_metaclusters:
  assumes "list_all2 (\<lambda>e m. fst m = ''metacluster'' @ str_int (fst e)
          \<and> (\<exists>c. snd m = SubGroup c
                \<and> sub_metacluster_results_save_hdf5 savers (snd e) empty_group = Inr c)) d ms"
  shows "those (map load_metacluster ms)
           = Some (map (\<lambda>e. (fst e, int (metacluster_size (snd e)), activity_pattern (snd e))) d)"
  using assms
proof (induction d ms rule: list_all2_induct)
  case Nil
  show ?case by simp
next
  case (Cons e d m ms)
  from Cons.hyps(1) obtain c where c: "m = (''metacluster'' @ str_int (fst e), SubGroup c)"
    "sub_metacluster_results_save_hdf5 savers (snd e) empty_group = Inr c"
    by (cases m) auto
  have "load_metacluster m
      = Some (fst e, int (metacluster_size (snd e)), activity_pattern (snd e))"
    unfolding c(1) by (rule load_metacluster_saved [OF c(2)])
  with Cons.IH show ?case by simp
qed

lemma list_all2_names:
  "list_all2 (\<lambda>e m. fst m = f e \<and> Q e m) d ms \<Longrightarrow> map fst ms = map f d"
  by (induction d ms rule: list_all2_induct) simp_all

lemma map_of_append_fresh:
  "k \<notin> fst ` set xs \<Longrightarrow> map_of (xs @ ys) k = map_of ys k"
  by (induction xs) auto

lemma str_int_inj: "str_int a = str_int b \<Longrightarrow> a = b"
  by (metis py_int_str_int option.inject)

lemma sub_metacluster_results_save_hdf5_succeeds:
  assumes "save_seqlets_to_patterns_result savers (seqlets_to_patterns_result sub) empty_group
             = Inr p"
  shows "\<exists>c. sub_metacluster_results_save_hdf5 savers sub empty_group = Inr c"
  using assms
  by (simp add: sub_metacluster_results_save_hdf5_def Let_def bindE_def create_dataset_def
      in_new_group_def save_seqlet_coords_def set_attr_def empty_group_def)

lemma save_submetaclusters_succeeds:
  assumes "\<forall>e \<in> set d. \<exists>p. save_seqlets_to_patterns_result savers
              (seqlets_to_patterns_result (snd e)) empty_group = Inr p"
    and "distinct (map fst d)"
    and "\<forall>e \<in> set d. ''metacluster'' @ str_int (fst e) \<notin> fst ` set (members grp)"
  shows "\<exists>grp'. save_submetaclusters savers d grp = Inr grp'"
  using assms
proof (induction d arbitrary: grp)
  case Nil
  show ?case by simp
next
  case (Cons e d)
  obtain idx sub where e: "e = (idx, sub)" by (cases e)
  from Cons.prems(1) e obtain p where
    "save_seqlets_to_patterns_result savers (seqlets_to_patterns_result sub) empty_group = Inr p"
    by auto
  from sub_metacluster_results_save_hdf5_succeeds [OF this] obtain c where
    c: "sub_metacluster_results_save_hdf5 savers sub empty_group = Inr c" by blast
  let ?grp = "Group (attrs grp) (members grp @ [(''metacluster'' @ str_int idx, SubGroup c)])"
  from Cons.prems(3) e have fresh: "''metacluster'' @ str_int idx \<notin> fst ` set (members grp)"
    by simp
  have step: "in_new_group (''metacluster'' @ str_int idx)
      (sub_metacluster_results_save_hdf5 savers sub) grp = Inr ?grp"
    using fresh c by (simp add: in_new_group_Inr)
  have "\<forall>e' \<in> set d. ''metacluster'' @ str_int (fst e') \<notin> fst ` set (members ?grp)"
  proof
    fix e' assume e': "e' \<in> set d"
    with Cons.prems(2) e have "fst e' \<noteq> idx" by auto
    then have "str_int (fst e') \<noteq> str_int idx" using str_int_inj by blast
    moreover from Cons.prems(3) e'
    have "''metacluster'' @ str_int (fst e') \<notin> fst ` set (members grp)" by simp
    ultimately show "''metacluster'' @ str_int (fst e') \<notin> fst ` set (members ?grp)"
      by simp
  qed
  with Cons.IH [of ?grp] Cons.prems(1,2) obtain grp' where
    "save_submetaclusters savers d ?grp = Inr grp'" by auto
  with step e show ?case by (simp add: bindE_def)
qed

text \<open>
  Saving into a group that has none of the four names succeeds when the collaborators'
  own \<^verbatim>\<open>save_hdf5\<close> methods do and the keys of the dictionary are distinct.
\<close>

lemma tfmodisco_results_save_hdf5_succeeds:
  assumes "''task_names'' \<notin> fst ` set (members grp)"
    "''multitask_seqlet_creation_results'' \<notin> fst ` set (members grp)"
    "''metaclustering_results'' \<notin> fst ` set (members grp)"
    "''metacluster_idx_to_submetacluster_results'' \<notin> fst ` set (members grp)"
    and "save_seqlet_creation_results savers (multitask_seqlet_creation_results self)
           empty_group = Inr a"
    and "save_metaclustering_results savers (metaclustering_results self) empty_group = Inr b"
    and "\<forall>e \<in> set (metacluster_idx_to_submetacluster_results self).
           \<exists>p. save_seqlets_to_patterns_result savers
              (seqlets_to_patterns_result (snd e)) empty_group = Inr p"
    and "distinct (map fst (metacluster_idx_to_submetacluster_results self))"
  shows "\<exists>grp'. tfmodisco_results_save_hdf5 savers self grp = Inr grp'"
proof -
  have "\<exists>c. save_submetaclusters savers (metacluster_idx_to_submetacluster_results self)
          empty_group = Inr c"
    using assms(7,8) by (rule save_submetaclusters_succeeds) (simp add: empty_group_def)
  then obtain c where "save_submetaclusters savers
      (metacluster_idx_to_submetacluster_results self) empty_group = Inr c" by blast
  with assms(1-6) show ?thesis
    by (simp add: tfmodisco_results_save_hdf5_def bindE_def in_new_group_def
        create_dataset_def save_string_list_def)
qed

lemma example_save:
  "tfmodisco_results_save_hdf5 example_savers example_results empty_group = Inr example_file"
  by code_simp

subsection \<open>Metaclusters without relevant tasks\<close>

text \<open>
  The \<^verbatim>\<open>continue\<close> of line 232 is never reached: a metacluster without relevant tasks
  raises at the unpacking of line 223, and every other one has a relevant task.
\<close>

lemma process_metacluster_never_skips:
  assumes "process_metacluster collab tn ts sq ix pats idx sz = (out, r)"
  shows "NoTasksFoundSkipping \<notin> set out \<and> r \<noteq> Inr None"
  using assms
  by (auto simp: process_metacluster_def ret_def Let_def py_assert_def unzip_pairs_def
      split: sum.splits prod.splits if_splits list.splits)

lemma process_metacluster_no_relevant_tasks:
  assumes "parse_activity_pattern pats idx = Inr acts"
    and "length sq = length ix"
    and "filter (\<lambda>x. snd x \<noteq> 0) (zip tn acts) = []"
  shows "process_metacluster collab tn ts sq ix pats idx sz
           = ([OnMetacluster idx, MetaclusterSize sz], Inl ValueError)"
  using assms
  by (simp add: process_metacluster_def py_assert_def unzip_pairs_def)

subsection \<open>What the metaclusterer is built with\<close>

text \<open>
  The call applies the metaclusterer to one argument record only, the one of lines 141
  to 146: replacing the metaclusterer by its value at that record changes nothing, and
  in a completed call the stored metaclustering result is the metaclusterer's value at
  that record and the attribute vectors.
\<close>

lemma process_metacluster_metaclusterer_update:
  "process_metacluster (collab\<lparr>metaclusterer := f\<rparr>) = process_metacluster collab"
proof -
  have "seqlets_to_patterns_factory (collab\<lparr>metaclusterer := f\<rparr>)
      = seqlets_to_patterns_factory collab"
    by simp
  then show ?thesis
    unfolding process_metacluster_def by (simp only:)
qed

lemma workflow_call_metaclusterer_args:
  assumes "resolve_thresholds self oh = (o1, Inr (p, w))"
  shows "workflow_call self collab tn cs hc oh
       = workflow_call self
           (collab\<lparr>metaclusterer := \<lambda>built. metaclusterer collab
              \<lparr>metaclusterer_min_cluster_size = min_cluster_size self,
               threshold_for_counting_sign = p, weak_threshold = w\<rparr>\<rparr>) tn cs hc oh"
proof -
  have "multitask_seqlet_creation (collab\<lparr>metaclusterer := f\<rparr>)
      = multitask_seqlet_creation collab"
    "metaclusterer (collab\<lparr>metaclusterer := f\<rparr>) = f" for f
    by simp_all
  then show ?thesis
    unfolding workflow_call_def assms and_then_Inr
    by (simp only: process_metacluster_metaclusterer_update prod.case Let_def)
qed

lemma workflow_call_metaclustering_results:
  assumes res: "resolve_thresholds self oh = (o1, Inr (p, w))"
    and run: "workflow_call self collab tn cs hc oh = (out, Inr res)"
  shows "metaclusterer collab
           \<lparr>metaclusterer_min_cluster_size = min_cluster_size self,
            threshold_for_counting_sign = p, weak_threshold = w\<rparr>
           (seqlet_attribute_vectors res) = Inr (metaclustering_results res)"
  using run unfolding workflow_call_def
proof (cases rule: and_then_cases)
  case (continue o1' x o2)
  with res have x: "x = (p, w)" by simp
  from continue(2) show ?thesis
    unfolding x
    apply (simp add: Let_def split: sum.splits)
    apply (drule loop_stage)
    apply (elim exE conjE)
    subgoal for ts pp mscr av mr m pre o3 r3
      by (cases r3) auto
    done
qed simp

section \<open>The claims\<close>

text \<open>
  C1 does not hold of the code. A metacluster whose activity pattern has no nonzero
  entry makes the list of line 224 empty; \<^verbatim>\<open>zip\<close> of nothing yields nothing, and unpacking
  it into \<^verbatim>\<open>relevant_task_names, relevant_task_signs\<close> raises \<^verbatim>\<open>ValueError\<close> before the test
  of line 229 that would skip the metacluster. In the example run with the pattern
  \<^verbatim>\<open>"0,0"\<close> for metacluster 1, the call announces metacluster 1 and ends with the
  error; metacluster 0 is never reached.
\<close>

theorem all_zero_pattern_aborts_run:
  "workflow_call (example_config Auto 1)
     (example_collaborators [(0, ''1,0''), (1, ''0,0'')])
     [''a'', ''b''] example_scores example_scores example_one_hot
   = ([UsingLaplaceThreshold (3 / 4), ReducingWeakThreshold (99 / 100) (3 / 4),
       OnMetacluster 1, MetaclusterSize 1], Inl ValueError)"
  by code_simp

text \<open>
  C2, as the specification states it, fails: the code sums \<open>1 + len(x) - window\<close> over
  the sequences without clamping a negative term to zero. With the default window of 21
  and minimum cluster size of 100, one sequence of length 10 and one of length 200 give
  the code the count 170 and the threshold 7/17, where the specification's formula gives
  the count 180 and the threshold 4/9.
\<close>

theorem auto_threshold_window_count_counterexample:
  "total_num default_config [one_hot_of_length 10, one_hot_of_length 200] = 170
   \<and> spec_window_count 21 [one_hot_of_length 10, one_hot_of_length 200] = 180
   \<and> derive_laplace_threshold_cdf default_config [one_hot_of_length 10, one_hot_of_length 200]
       = Inr (7 / 17)
   \<and> spec_auto_threshold 100 180 = 4 / 9
   \<and> derive_laplace_threshold_cdf default_config [one_hot_of_length 10, one_hot_of_length 200]
       \<noteq> Inr (spec_auto_threshold (min_cluster_size default_config)
                (spec_window_count (sliding_window_size default_config)
                   [one_hot_of_length 10, one_hot_of_length 200]))"
  by (simp add: total_num_def spec_window_count_def derive_laplace_threshold_cdf_def
      default_config_def one_hot_of_length_def spec_auto_threshold_def bindE_def py_assert_def)

text \<open>
  C2, amended: when \<^verbatim>\<open>laplace_threshold_cdf\<close> is \<^verbatim>\<open>"auto"\<close> and the window count \<open>T\<close>
  exceeds \<^verbatim>\<open>min_cluster_size\<close> and is not zero, the derived threshold is
  \<open>max(min(0.99, 1 - min_cluster_size/T), 1 - 500/T)\<close>, where \<open>T\<close> is the plain sum of
  \<open>1 + sequence_length - window_size\<close> over the input sequences; this sum is the
  specification's clamped sum whenever no sequence is shorter than \<open>window_size - 1\<close>.
  For 10 sequences of length 50, window 21 and minimum cluster size 100, \<open>T\<close> is 300 and
  the threshold is 2/3.
\<close>

theorem auto_threshold_derivation:
  "(laplace_threshold_cdf self = Auto \<and> min_cluster_size self < total_num self one_hot
      \<and> total_num self one_hot \<noteq> 0 \<longrightarrow>
      derive_laplace_threshold_cdf self one_hot
        = Inr (spec_auto_threshold (min_cluster_size self) (total_num self one_hot)))
   \<and> total_num self one_hot
        = sum_list (map (\<lambda>x. 1 + int (length x) - sliding_window_size self) one_hot)
   \<and> ((\<forall>x \<in> set one_hot. sliding_window_size self \<le> 1 + int (length x)) \<longrightarrow>
        total_num self one_hot = spec_window_count (sliding_window_size self) one_hot)
   \<and> (laplace_threshold_cdf self = Auto \<and> sliding_window_size self = 21
        \<and> min_cluster_size self = 100 \<and> length one_hot = 10
        \<and> (\<forall>x \<in> set one_hot. length x = 50) \<longrightarrow>
        total_num self one_hot = 300
        \<and> derive_laplace_threshold_cdf self one_hot = Inr (2 / 3))"
proof (intro conjI impI)
  assume "laplace_threshold_cdf self = Auto \<and> min_cluster_size self < total_num self one_hot
      \<and> total_num self one_hot \<noteq> 0"
  then show "derive_laplace_threshold_cdf self one_hot
        = Inr (spec_auto_threshold (min_cluster_size self) (total_num self one_hot))"
    by (simp add: derive_laplace_threshold_cdf_def bindE_def py_assert_def
        spec_auto_threshold_def)
next
  show "total_num self one_hot
        = sum_list (map (\<lambda>x. 1 + int (length x) - sliding_window_size self) one_hot)"
    by (simp add: total_num_def)
next
  assume "\<forall>x \<in> set one_hot. sliding_window_size self \<le> 1 + int (length x)"
  then show "total_num self one_hot = spec_window_count (sliding_window_size self) one_hot"
    by (rule total_num_clamped)
next
  assume a: "laplace_threshold_cdf self = Auto \<and> sliding_window_size self = 21
        \<and> min_cluster_size self = 100 \<and> length one_hot = 10
        \<and> (\<forall>x \<in> set one_hot. length x = 50)"
  then have "total_num self one_hot
      = int (length one_hot) * (1 + int 50 - sliding_window_size self)"
    by (intro total_num_uniform) simp
  with a show t: "total_num self one_hot = 300" by simp
  with a show "derive_laplace_threshold_cdf self one_hot = Inr (2 / 3)"
    by (simp add: derive_laplace_threshold_cdf_def bindE_def py_assert_def)
qed

theorem auto_threshold_derivation_witness:
  "laplace_threshold_cdf default_config = Auto
   \<and> sliding_window_size default_config = 21 \<and> min_cluster_size default_config = 100
   \<and> length (replicate 10 (one_hot_of_length 50)) = 10
   \<and> list_all (\<lambda>x. length x = 50) (replicate 10 (one_hot_of_length 50))
   \<and> total_num default_config (replicate 10 (one_hot_of_length 50)) = 300
   \<and> derive_laplace_threshold_cdf default_config (replicate 10 (one_hot_of_length 50))
       = Inr (2 / 3)
   \<and> spec_auto_threshold 100 300 = 2 / 3
   \<and> spec_window_count 21 (replicate 10 (one_hot_of_length 50)) = 300"
proof -
  have h: "laplace_threshold_cdf default_config = Auto
      \<and> sliding_window_size default_config = 21 \<and> min_cluster_size default_config = 100
      \<and> length (replicate 10 (one_hot_of_length 50)) = 10
      \<and> (\<forall>x \<in> set (replicate 10 (one_hot_of_length 50)). length x = 50)"
    by (simp add: default_config_def one_hot_of_length_def)
  from auto_threshold_derivation [of default_config "replicate 10 (one_hot_of_length 50)"] h
  show ?thesis
    by (simp add: spec_auto_threshold_def list_all_iff)
qed

text \<open>
  C3, as stated, fails: the size check stands inside the branch for the automatic
  threshold. With an explicit threshold of 0.9, a window count of 4 and a minimum
  cluster size of 100, the call builds its tracks and completes.
\<close>

theorem explicit_threshold_no_size_check_counterexample:
  "total_num (example_config (Cdf (9 / 10)) 100) example_one_hot = 4
   \<and> min_cluster_size (example_config (Cdf (9 / 10)) 100) = 100
   \<and> snd (workflow_call (example_config (Cdf (9 / 10)) 100)
            (example_collaborators example_patterns)
            [''a'', ''b''] example_scores example_scores example_one_hot)
       = Inr example_results"
  by code_simp

text \<open>
  C3, amended: when \<^verbatim>\<open>laplace_threshold_cdf\<close> is \<^verbatim>\<open>"auto"\<close> and the window count \<open>T\<close> (the
  plain sum) is at most \<^verbatim>\<open>min_cluster_size\<close>, the call raises an \<^verbatim>\<open>AssertionError\<close> before
  anything is printed and before any track is built: the outcome is this error with
  empty output, whatever the task names, score dictionaries and collaborators are. With
  an explicit threshold there is no such check, and threshold derivation returns the
  configured value. Nothing is said about the wording of the message.
\<close>

theorem too_few_windows_fails_first:
  "(laplace_threshold_cdf self = Auto \<and> total_num self one_hot \<le> min_cluster_size self \<longrightarrow>
      (\<exists>msg. workflow_call self collab tn cs hc one_hot = ([], Inl (AssertionError msg))))
   \<and> (\<forall>c. laplace_threshold_cdf self = Cdf c \<longrightarrow>
        derive_laplace_threshold_cdf self one_hot = Inr c)"
  by (auto simp: workflow_call_def resolve_thresholds_def derive_laplace_threshold_cdf_def
      bindE_def py_assert_def)

theorem too_few_windows_fails_first_witness:
  "laplace_threshold_cdf (example_config Auto 4) = Auto
   \<and> total_num (example_config Auto 4) example_one_hot
       \<le> min_cluster_size (example_config Auto 4)
   \<and> (\<exists>msg. workflow_call (example_config Auto 4) (example_collaborators example_patterns)
               [''a'', ''c''] example_scores example_scores example_one_hot
             = ([], Inl (AssertionError msg)))
   \<and> laplace_threshold_cdf (example_config (Cdf (9 / 10)) 100) = Cdf (9 / 10)
   \<and> derive_laplace_threshold_cdf (example_config (Cdf (9 / 10)) 100) example_one_hot
       = Inr (9 / 10)"
proof -
  have h: "laplace_threshold_cdf (example_config Auto 4) = Auto
      \<and> total_num (example_config Auto 4) example_one_hot
          \<le> min_cluster_size (example_config Auto 4)"
    by (simp add: example_config_def total_num_def example_one_hot_def example_array_def)
  have k: "laplace_threshold_cdf (example_config (Cdf (9 / 10)) 100) = Cdf (9 / 10)"
    by (simp add: example_config_def)
  from too_few_windows_fails_first [of "example_config Auto 4" example_one_hot
      "example_collaborators example_patterns" "[''a'', ''c'']" example_scores example_scores]
    too_few_windows_fails_first [of "example_config (Cdf (9 / 10)) 100" example_one_hot]
    h k
  show ?thesis by blast
qed

text \<open>
  C4: once the primary threshold \<open>p\<close> is derived, the call goes on with \<open>p\<close> and a weak
  threshold \<open>w\<close>, where \<open>w\<close> is \<open>p\<close> when \<^verbatim>\<open>weak_threshold_for_counting_sign\<close> is \<^verbatim>\<open>None\<close>,
  \<open>p\<close> when the supplied value is greater than \<open>p\<close> (then the reduction is printed and
  the call continues), and the supplied value otherwise; so \<open>w\<close> is never greater than
  \<open>p\<close>. This \<open>w\<close> is the weak threshold used downstream: the call builds the
  metaclusterer with \<^verbatim>\<open>min_cluster_size\<close>, \<open>p\<close> and \<open>w\<close> and with nothing else (the call is
  the same when the metaclusterer is replaced by its value at these arguments), and in a
  completed call the stored metaclustering result is what the metaclusterer built with
  \<open>p\<close> and \<open>w\<close> returns on the attribute vectors.
\<close>

theorem weak_threshold_never_exceeds_primary:
  assumes "derive_laplace_threshold_cdf self one_hot = Inr p"
  shows "\<exists>out w. resolve_thresholds self one_hot = (out, Inr (p, w))
     \<and> w = (case weak_threshold_for_counting_sign self of
              None \<Rightarrow> p
            | Some s \<Rightarrow> if s > p then p else s)
     \<and> w \<le> p
     \<and> out = UsingLaplaceThreshold p #
              (case weak_threshold_for_counting_sign self of
                 None \<Rightarrow> []
               | Some s \<Rightarrow> if s > p then [ReducingWeakThreshold s p] else [])
     \<and> workflow_call self collab tn cs hc one_hot
         = workflow_call self
             (collab\<lparr>metaclusterer := \<lambda>built. metaclusterer collab
                \<lparr>metaclusterer_min_cluster_size = min_cluster_size self,
                 threshold_for_counting_sign = p, weak_threshold = w\<rparr>\<rparr>) tn cs hc one_hot
     \<and> (\<forall>log res. workflow_call self collab tn cs hc one_hot = (log, Inr res) \<longrightarrow>
           metaclusterer collab
             \<lparr>metaclusterer_min_cluster_size = min_cluster_size self,
              threshold_for_counting_sign = p, weak_threshold = w\<rparr>
             (seqlet_attribute_vectors res) = Inr (metaclustering_results res))"
proof -
  from assms obtain out w where r: "resolve_thresholds self one_hot = (out, Inr (p, w))"
    and w: "w = (case weak_threshold_for_counting_sign self of
              None \<Rightarrow> p
            | Some s \<Rightarrow> if s > p then p else s)" "w \<le> p"
    and out: "out = UsingLaplaceThreshold p #
              (case weak_threshold_for_counting_sign self of
                 None \<Rightarrow> []
               | Some s \<Rightarrow> if s > p then [ReducingWeakThreshold s p] else [])"
    by (cases "weak_threshold_for_counting_sign self")
       (auto simp: resolve_thresholds_def ret_def Let_def)
  note args = workflow_call_metaclusterer_args [OF r, of collab tn cs hc]
  have stored: "metaclusterer collab
             \<lparr>metaclusterer_min_cluster_size = min_cluster_size self,
              threshold_for_counting_sign = p, weak_threshold = w\<rparr>
             (seqlet_attribute_vectors res) = Inr (metaclustering_results res)"
    if "workflow_call self collab tn cs hc one_hot = (log, Inr res)" for log res
    using r that by (rule workflow_call_metaclustering_results)
  from r w out args stored show ?thesis by blast
qed

theorem weak_threshold_never_exceeds_primary_witness:
  "derive_laplace_threshold_cdf (example_config Auto 1) example_one_hot = Inr (3 / 4)
   \<and> weak_threshold_for_counting_sign (example_config Auto 1) = Some (99 / 100)
   \<and> resolve_thresholds (example_config Auto 1) example_one_hot
       = ([UsingLaplaceThreshold (3 / 4), ReducingWeakThreshold (99 / 100) (3 / 4)],
          Inr (3 / 4, 3 / 4))
   \<and> workflow_call (example_config Auto 1) (example_strict_collaborators example_patterns)
        [''a'', ''b''] example_scores example_scores example_one_hot
       = (example_output, Inr example_results)
   \<and> metaclusterer (example_strict_collaborators example_patterns)
        \<lparr>metaclusterer_min_cluster_size = 1, threshold_for_counting_sign = 3 / 4,
         weak_threshold = 3 / 4\<rparr>
        (seqlet_attribute_vectors example_results)
       = Inr (metaclustering_results example_results)
   \<and> metaclusterer (example_strict_collaborators example_patterns)
        \<lparr>metaclusterer_min_cluster_size = 1, threshold_for_counting_sign = 3 / 4,
         weak_threshold = 99 / 100\<rparr>
        (seqlet_attribute_vectors example_results)
       = Inl (CollaboratorError ''weak threshold above primary threshold'')"
proof -
  have h: "derive_laplace_threshold_cdf (example_config Auto 1) example_one_hot = Inr (3 / 4)"
    by code_simp
  have c: "weak_threshold_for_counting_sign (example_config Auto 1) = Some (99 / 100)"
    "min_cluster_size (example_config Auto 1) = 1"
    by (simp_all add: example_config_def)
  from weak_threshold_never_exceeds_primary [OF h,
      of "example_strict_collaborators example_patterns" "[''a'', ''b'']" example_scores
         example_scores]
  obtain out w where f:
    "resolve_thresholds (example_config Auto 1) example_one_hot = (out, Inr (3 / 4, w))"
    "w = (case weak_threshold_for_counting_sign (example_config Auto 1) of
              None \<Rightarrow> 3 / 4
            | Some s \<Rightarrow> if s > 3 / 4 then 3 / 4 else s)"
    "out = UsingLaplaceThreshold (3 / 4) #
              (case weak_threshold_for_counting_sign (example_config Auto 1) of
                 None \<Rightarrow> []
               | Some s \<Rightarrow> if s > 3 / 4 then [ReducingWeakThreshold s (3 / 4)] else [])"
    "\<forall>log res. workflow_call (example_config Auto 1)
          (example_strict_collaborators example_patterns)
          [''a'', ''b''] example_scores example_scores example_one_hot = (log, Inr res) \<longrightarrow>
        metaclusterer (example_strict_collaborators example_patterns)
          \<lparr>metaclusterer_min_cluster_size = min_cluster_size (example_config Auto 1),
           threshold_for_counting_sign = 3 / 4, weak_threshold = w\<rparr>
          (seqlet_attribute_vectors res) = Inr (metaclustering_results res)"
    by blast
  from f(2) c have w: "w = 3 / 4" by simp
  from f(3) c have out: "out = [UsingLaplaceThreshold (3 / 4),
      ReducingWeakThreshold (99 / 100) (3 / 4)]" by simp
  from f(4) example_strict_run have "metaclusterer (example_strict_collaborators example_patterns)
          \<lparr>metaclusterer_min_cluster_size = min_cluster_size (example_config Auto 1),
           threshold_for_counting_sign = 3 / 4, weak_threshold = w\<rparr>
          (seqlet_attribute_vectors example_results)
        = Inr (metaclustering_results example_results)"
    by blast
  then have m: "metaclusterer (example_strict_collaborators example_patterns)
        \<lparr>metaclusterer_min_cluster_size = 1, threshold_for_counting_sign = 3 / 4,
         weak_threshold = 3 / 4\<rparr>
        (seqlet_attribute_vectors example_results)
       = Inr (metaclustering_results example_results)"
    by (simp only: w c)
  have refuse: "metaclusterer (example_strict_collaborators example_patterns)
        \<lparr>metaclusterer_min_cluster_size = 1, threshold_for_counting_sign = 3 / 4,
         weak_threshold = 99 / 100\<rparr>
        (seqlet_attribute_vectors example_results)
       = Inl (CollaboratorError ''weak threshold above primary threshold'')"
    by (simp add: example_strict_collaborators_def)
  from f(1) have r: "resolve_thresholds (example_config Auto 1) example_one_hot
       = ([UsingLaplaceThreshold (3 / 4), ReducingWeakThreshold (99 / 100) (3 / 4)],
          Inr (3 / 4, 3 / 4))"
    by (simp only: w out)
  from h c(1) r example_strict_run m refuse show ?thesis by (intro conjI)
qed

text \<open>
  C5: the loop announces the metaclusters in non-decreasing order of size, whether the
  call completes or raises on the way; and when the call completes, the entries of
  \<^verbatim>\<open>metacluster_idx_to_submetacluster_results\<close> stand in the order in which the
  metaclusters were announced, so that an earlier entry's \<^verbatim>\<open>metacluster_size\<close> is at most
  a later entry's.
\<close>

theorem metaclusters_in_ascending_size_order:
  assumes "workflow_call self collab tn cs hc oh = (out, r)"
  shows "sorted (sizes_announced out)
    \<and> (\<forall>res. r = Inr res \<longrightarrow>
          sorted (map (\<lambda>e. metacluster_size (snd e)) (metacluster_idx_to_submetacluster_results res))
        \<and> map (\<lambda>e. metacluster_size (snd e)) (metacluster_idx_to_submetacluster_results res)
            = sizes_announced out
        \<and> map fst (metacluster_idx_to_submetacluster_results res) = metaclusters_announced out)"
proof (intro conjI allI impI)
  show "sorted (sizes_announced out)" by (rule workflow_call_announced [OF assms])
next
  fix res assume r: "r = Inr res"
  let ?d = "metacluster_idx_to_submetacluster_results res"
  let ?ix = "metacluster_indices (metaclustering_results res)"
  from assms r have run: "workflow_call self collab tn cs hc oh = (out, Inr res)" by simp
  from workflow_call_entries [OF run] obtain m subs where subs:
    "py_max ?ix = Inr m"
    "?d = zip (map fst (sort_key snd (py_enumerate (metacluster_sizes_of ?ix (m + 1))))) subs"
    "map metacluster_size subs
       = map snd (sort_key snd (py_enumerate (metacluster_sizes_of ?ix (m + 1))))"
    by blast
  let ?todo = "sort_key snd (py_enumerate (metacluster_sizes_of ?ix (m + 1)))"
  from subs(3) have len: "length subs = length (map fst ?todo)"
    by (metis length_map)
  from workflow_call_Inr_announced [OF run] subs(1) have ann:
    "sizes_announced out = map snd ?todo" "metaclusters_announced out = map fst ?todo"
    by auto
  have "map (\<lambda>e. metacluster_size (snd e)) ?d = map metacluster_size (map snd ?d)"
    by simp
  also have "map snd ?d = subs" unfolding subs(2) using len by (simp del: length_map)
  finally have d_sizes: "map (\<lambda>e. metacluster_size (snd e)) ?d = map snd ?todo"
    using subs(3) by simp
  show "sorted (map (\<lambda>e. metacluster_size (snd e)) ?d)"
    unfolding d_sizes by (rule sorted_sort_key)
  show "map (\<lambda>e. metacluster_size (snd e)) ?d = sizes_announced out"
    unfolding d_sizes ann by simp
  have "map fst ?d = map fst ?todo" unfolding subs(2) using len by (simp del: length_map)
  then show "map fst ?d = metaclusters_announced out" unfolding ann .
qed

theorem metaclusters_in_ascending_size_order_witness:
  "workflow_call (example_config Auto 1) (example_collaborators example_patterns)
     [''a'', ''b''] example_scores example_scores example_one_hot
     = (example_output, Inr example_results)
   \<and> sorted (sizes_announced example_output)
   \<and> sorted (map (\<lambda>e. metacluster_size (snd e))
               (metacluster_idx_to_submetacluster_results example_results))
   \<and> map (\<lambda>e. metacluster_size (snd e))
        (metacluster_idx_to_submetacluster_results example_results) = [1, 2]
   \<and> map fst (metacluster_idx_to_submetacluster_results example_results)
       = metaclusters_announced example_output"
  using metaclusters_in_ascending_size_order [OF example_run] example_run
  by (simp add: example_results_def)

text \<open>
  C6: for every completed run in which the metaclusterer returned one index per seqlet
  (its contract), the attribute-vector matrix has shape
  \<open>(len(final_seqlets), len(task_names))\<close>, its rows follow \<^verbatim>\<open>final_seqlets\<close>, its columns
  follow \<^verbatim>\<open>task_names\<close>, and its entry \<open>(i, j)\<close> is the value that seqlet \<open>i\<close> holds under
  the key \<^verbatim>\<open>task_names[j] + "_label"\<close>.
\<close>

theorem attribute_vectors_shape_and_entries:
  assumes "workflow_call self collab tn cs hc oh = (out, Inr res)"
    and "length (metacluster_indices (metaclustering_results res))
           = length (final_seqlets (multitask_seqlet_creation_results res))"
  shows "shape (seqlet_attribute_vectors res)
           = [length (final_seqlets (multitask_seqlet_creation_results res)),
              length (task_names res)]
    \<and> length (entries (seqlet_attribute_vectors res))
        = length (final_seqlets (multitask_seqlet_creation_results res))
    \<and> task_names res = tn
    \<and> (\<forall>i < length (final_seqlets (multitask_seqlet_creation_results res)).
         length (entries (seqlet_attribute_vectors res) ! i) = length (task_names res)
       \<and> (\<forall>j < length (task_names res).
           seqlet_getitem (final_seqlets (multitask_seqlet_creation_results res) ! i)
               (task_names res ! j @ ''_label'')
             = Inr (entries (seqlet_attribute_vectors res) ! i ! j)))"
proof -
  let ?sq = "final_seqlets (multitask_seqlet_creation_results res)"
  let ?av = "seqlet_attribute_vectors res"
  from workflow_call_Inr [OF assms(1)] obtain m where tn: "task_names res = tn"
    and av: "attribute_vectors_of tn ?sq = Inr ?av"
    and m: "py_max (metacluster_indices (metaclustering_results res)) = Inr m"
    by blast
  from py_max_Inr [OF m] assms(2) have ne: "?sq \<noteq> []" by auto
  note facts = attribute_vectors_of_Inr [OF av]
  from facts(3) ne tn have "shape ?av = [length ?sq, length (task_names res)]" by simp
  moreover from facts(1) have "length (entries ?av) = length ?sq" by simp
  moreover have "length (entries ?av ! i) = length (task_names res)
       \<and> (\<forall>j < length (task_names res).
           seqlet_getitem (?sq ! i) (task_names res ! j @ ''_label'')
             = Inr (entries ?av ! i ! j))" if "i < length ?sq" for i
  proof -
    from that have "?sq ! i \<in> set ?sq" by simp
    with facts(2) have "\<forall>key \<in> set tn. map_of (attributes (?sq ! i)) (key @ ''_label'') \<noteq> None"
      by blast
    then have "\<forall>j < length tn. map_of (attributes (?sq ! i)) (tn ! j @ ''_label'') \<noteq> None"
      by simp
    with that facts(1) tn show ?thesis
      by (auto simp: seqlet_getitem_def getitem_def split: option.splits)
  qed
  ultimately show ?thesis using tn by blast
qed

theorem attribute_vectors_shape_and_entries_witness:
  "length (metacluster_indices (metaclustering_results example_results))
     = length (final_seqlets (multitask_seqlet_creation_results example_results))
   \<and> shape (seqlet_attribute_vectors example_results) = [3, 2]
   \<and> length (final_seqlets (multitask_seqlet_creation_results example_results)) = 3
   \<and> length (task_names example_results) = 2
   \<and> seqlet_getitem (final_seqlets (multitask_seqlet_creation_results example_results) ! 1)
        (task_names example_results ! 0 @ ''_label'')
       = Inr (entries (seqlet_attribute_vectors example_results) ! 1 ! 0)"
proof -
  have h: "length (metacluster_indices (metaclustering_results example_results))
     = length (final_seqlets (multitask_seqlet_creation_results example_results))"
    by (simp add: example_results_def example_seqlets_def)
  have n: "length (final_seqlets (multitask_seqlet_creation_results example_results)) = 3"
    "length (task_names example_results) = 2"
    by (simp_all add: example_results_def example_seqlets_def)
  note inst = attribute_vectors_shape_and_entries [OF example_run h]
  from inst n have s: "shape (seqlet_attribute_vectors example_results) = [3, 2]"
    by simp
  from inst have all: "\<forall>i < length (final_seqlets (multitask_seqlet_creation_results
        example_results)).
      length (entries (seqlet_attribute_vectors example_results) ! i)
        = length (task_names example_results)
      \<and> (\<forall>j < length (task_names example_results).
           seqlet_getitem (final_seqlets (multitask_seqlet_creation_results example_results) ! i)
               (task_names example_results ! j @ ''_label'')
             = Inr (entries (seqlet_attribute_vectors example_results) ! i ! j))"
    by blast
  have "1 < length (final_seqlets (multitask_seqlet_creation_results example_results))"
    "0 < length (task_names example_results)"
    using n by simp_all
  with all have "seqlet_getitem
      (final_seqlets (multitask_seqlet_creation_results example_results) ! 1)
        (task_names example_results ! 0 @ ''_label'')
       = Inr (entries (seqlet_attribute_vectors example_results) ! 1 ! 0)"
    by blast
  with h n s show ?thesis by blast
qed

text \<open>
  C7: when every task name is a key of both score dictionaries, track construction
  succeeds and builds, in this order, one track \<^verbatim>\<open>"<t>_contrib_scores"\<close> for each task name
  \<open>t\<close>, one track \<^verbatim>\<open>"<t>_hypothetical_contribs"\<close> for each task name, and the track
  \<^verbatim>\<open>"sequence"\<close> from the one-hot input; the forward arrays are the given ones, every
  track has as many reverse arrays as forward arrays, and each reverse array is the
  forward array at the same place reversed along the position axis and the channel axis.
\<close>

theorem track_construction_tracks:
  assumes "set tn \<subseteq> dom cs" and "set tn \<subseteq> dom hc"
  shows "\<exists>ts. build_track_set tn cs hc oh = Inr ts
    \<and> map name (data_tracks ts)
        = map (\<lambda>t. t @ ''_contrib_scores'') tn @ map (\<lambda>t. t @ ''_hypothetical_contribs'') tn
          @ [''sequence'']
    \<and> map fwd_tracks (data_tracks ts)
        = map (\<lambda>t. the (cs t)) tn @ map (\<lambda>t. the (hc t)) tn @ [oh]
    \<and> length (data_tracks ts) = 2 * length tn + 1
    \<and> (\<forall>tr \<in> set (data_tracks ts).
          length (rev_tracks tr) = length (fwd_tracks tr)
        \<and> (\<forall>i < length (fwd_tracks tr). rev_tracks tr ! i = rev (map rev (fwd_tracks tr ! i))))"
proof -
  let ?mk = "\<lambda>suffix d key. \<lparr>name = key @ suffix, fwd_tracks = the (d key),
      rev_tracks = map reverse_both_axes (the (d key)), has_pos_axis = True\<rparr>"
  have c: "comprehension (\<lambda>key. bindE (getitem cs key) (\<lambda>a.
              Inr \<lparr>name = key @ ''_contrib_scores'', fwd_tracks = a,
                   rev_tracks = map reverse_both_axes a, has_pos_axis = True\<rparr>)) tn
           = Inr (map (?mk ''_contrib_scores'' cs) tn)"
    using assms(1) by (intro comprehension_total) (auto simp: getitem_def bindE_def)
  have h: "comprehension (\<lambda>key. bindE (getitem hc key) (\<lambda>a.
              Inr \<lparr>name = key @ ''_hypothetical_contribs'', fwd_tracks = a,
                   rev_tracks = map reverse_both_axes a, has_pos_axis = True\<rparr>)) tn
           = Inr (map (?mk ''_hypothetical_contribs'' hc) tn)"
    using assms(2) by (intro comprehension_total) (auto simp: getitem_def bindE_def)
  let ?ts = "\<lparr>data_tracks = map (?mk ''_contrib_scores'' cs) tn
      @ map (?mk ''_hypothetical_contribs'' hc) tn
      @ [\<lparr>name = ''sequence'', fwd_tracks = oh, rev_tracks = map reverse_both_axes oh,
           has_pos_axis = True\<rparr>]\<rparr>"
  have "build_track_set tn cs hc oh = Inr ?ts"
    unfolding build_track_set_def c h by (simp add: bindE_def)
  moreover have "\<forall>tr \<in> set (data_tracks ?ts).
          length (rev_tracks tr) = length (fwd_tracks tr)
        \<and> (\<forall>i < length (fwd_tracks tr). rev_tracks tr ! i = rev (map rev (fwd_tracks tr ! i)))"
    by (auto simp: reverse_both_axes_def)
  ultimately show ?thesis
    by (intro exI [of _ ?ts]) (simp add: comp_def)
qed

theorem track_construction_tracks_witness:
  "set [''a'', ''b''] \<subseteq> dom example_scores
   \<and> (\<exists>ts. build_track_set [''a'', ''b''] example_scores example_scores example_one_hot = Inr ts
         \<and> map name (data_tracks ts)
             = [''a_contrib_scores'', ''b_contrib_scores'', ''a_hypothetical_contribs'',
                ''b_hypothetical_contribs'', ''sequence'']
         \<and> length (data_tracks ts) = 5
         \<and> rev_tracks (last (data_tracks ts))
             = [[[0, 3], [2, 0], [0, 1]], [[0, 3], [2, 0], [0, 1]]])"
proof -
  have h: "set [''a'', ''b''] \<subseteq> dom example_scores"
    by (simp add: example_scores_def)
  from track_construction_tracks [OF h h, of example_one_hot] obtain ts where ts:
    "build_track_set [''a'', ''b''] example_scores example_scores example_one_hot = Inr ts"
    "map name (data_tracks ts)
       = map (\<lambda>t. t @ ''_contrib_scores'') [''a'', ''b'']
         @ map (\<lambda>t. t @ ''_hypothetical_contribs'') [''a'', ''b''] @ [''sequence'']"
    "length (data_tracks ts) = 2 * length [''a'', ''b''] + 1"
    by blast
  have "build_track_set [''a'', ''b''] example_scores example_scores example_one_hot
      = Inr \<lparr>data_tracks =
          [\<lparr>name = ''a_contrib_scores'', fwd_tracks = example_one_hot,
             rev_tracks = map reverse_both_axes example_one_hot, has_pos_axis = True\<rparr>,
           \<lparr>name = ''b_contrib_scores'', fwd_tracks = example_one_hot,
             rev_tracks = map reverse_both_axes example_one_hot, has_pos_axis = True\<rparr>,
           \<lparr>name = ''a_hypothetical_contribs'', fwd_tracks = example_one_hot,
             rev_tracks = map reverse_both_axes example_one_hot, has_pos_axis = True\<rparr>,
           \<lparr>name = ''b_hypothetical_contribs'', fwd_tracks = example_one_hot,
             rev_tracks = map reverse_both_axes example_one_hot, has_pos_axis = True\<rparr>,
           \<lparr>name = ''sequence'', fwd_tracks = example_one_hot,
             rev_tracks = map reverse_both_axes example_one_hot, has_pos_axis = True\<rparr>]\<rparr>"
    by (simp add: build_track_set_def bindE_def getitem_def example_scores_def
        example_one_hot_def)
  with ts(1) have "rev_tracks (last (data_tracks ts))
      = [[[0, 3], [2, 0], [0, 1]], [[0, 3], [2, 0], [0, 1]]]"
    by (auto simp: reverse_both_axes_def example_one_hot_def example_array_def)
  with h ts show ?thesis by (intro conjI exI [of _ ts]) simp_all
qed

text \<open>
  C8: whenever saving a result into a group succeeds, the group
  \<^verbatim>\<open>metacluster_idx_to_submetacluster_results\<close> holds exactly one group per entry of the
  dictionary, named \<^verbatim>\<open>"metacluster" + str(idx)\<close>, with the entry's size as the attribute
  \<^verbatim>\<open>size\<close> and its activity pattern as the dataset \<^verbatim>\<open>activity_pattern\<close>; and reading the
  structure back gives the saved task names and, for each metacluster key, the saved size
  and activity pattern. Metaclusters that were skipped are not entries of the dictionary
  and get no group.
\<close>

theorem save_hdf5_round_trip:
  assumes "tfmodisco_results_save_hdf5 savers self grp = Inr grp'"
  shows "\<exists>sub_grp. map_of (members grp') ''metacluster_idx_to_submetacluster_results''
                      = Some (SubGroup sub_grp)
     \<and> map fst (members sub_grp)
         = map (\<lambda>e. ''metacluster'' @ str_int (fst e))
             (metacluster_idx_to_submetacluster_results self)
     \<and> list_all2 (\<lambda>e m. \<exists>c. snd m = SubGroup c
            \<and> map_of (attrs c) ''size'' = Some (Scalar (int (metacluster_size (snd e))))
            \<and> map_of (members c) ''activity_pattern''
                = Some (Dataset (IntArray (activity_pattern (snd e)))))
         (metacluster_idx_to_submetacluster_results self) (members sub_grp)
     \<and> load_structure grp'
         = Some (task_names self,
                 map (\<lambda>e. (fst e, int (metacluster_size (snd e)), activity_pattern (snd e)))
                   (metacluster_idx_to_submetacluster_results self))"
proof -
  let ?d = "metacluster_idx_to_submetacluster_results self"
  from assms obtain a b c where
    fresh: "''task_names'' \<notin> fst ` set (members grp)"
      "''metacluster_idx_to_submetacluster_results'' \<notin> fst ` set (members grp)"
    and c: "save_submetaclusters savers ?d empty_group = Inr c"
    and grp': "members grp' = members grp @
        [(''task_names'', Dataset (StringList (task_names self))),
         (''multitask_seqlet_creation_results'', SubGroup a),
         (''metaclustering_results'', SubGroup b),
         (''metacluster_idx_to_submetacluster_results'', SubGroup c)]"
    by (auto simp: tfmodisco_results_save_hdf5_def bindE_Inr in_new_group_Inr
        create_dataset_Inr save_string_list_def)
  from save_submetaclusters_Inr [OF c] have ms:
    "list_all2 (\<lambda>e m. fst m = ''metacluster'' @ str_int (fst e)
          \<and> (\<exists>c. snd m = SubGroup c
                \<and> sub_metacluster_results_save_hdf5 savers (snd e) empty_group = Inr c))
       ?d (members c)"
    by (simp add: empty_group_def)
  have names: "map fst (members c) = map (\<lambda>e. ''metacluster'' @ str_int (fst e)) ?d"
    using ms by (rule list_all2_names)
  have each: "list_all2 (\<lambda>e m. \<exists>c. snd m = SubGroup c
            \<and> map_of (attrs c) ''size'' = Some (Scalar (int (metacluster_size (snd e))))
            \<and> map_of (members c) ''activity_pattern''
                = Some (Dataset (IntArray (activity_pattern (snd e))))) ?d (members c)"
    using ms
  proof (rule list_all2_mono)
    fix e m
    assume "fst m = ''metacluster'' @ str_int (fst e)
          \<and> (\<exists>c. snd m = SubGroup c
                \<and> sub_metacluster_results_save_hdf5 savers (snd e) empty_group = Inr c)"
    then obtain c' where c': "snd m = SubGroup c'"
      "sub_metacluster_results_save_hdf5 savers (snd e) empty_group = Inr c'" by blast
    from sub_metacluster_results_save_hdf5_Inr [OF c'(2)] c'(1)
    show "\<exists>c. snd m = SubGroup c
            \<and> map_of (attrs c) ''size'' = Some (Scalar (int (metacluster_size (snd e))))
            \<and> map_of (members c) ''activity_pattern''
                = Some (Dataset (IntArray (activity_pattern (snd e))))"
      by auto
  qed
  have "map_of (members grp') k = map_of
        [(''task_names'', Dataset (StringList (task_names self))),
         (''multitask_seqlet_creation_results'', SubGroup a),
         (''metaclustering_results'', SubGroup b),
         (''metacluster_idx_to_submetacluster_results'', SubGroup c)] k"
    if "k \<notin> fst ` set (members grp)" for k
    unfolding grp' using that by (rule map_of_append_fresh)
  from this [OF fresh(2)] this [OF fresh(1)]
  have look: "map_of (members grp') ''metacluster_idx_to_submetacluster_results''
      = Some (SubGroup c)"
    "map_of (members grp') ''task_names'' = Some (Dataset (StringList (task_names self)))"
    by simp_all
  then have "load_structure grp' = Some (task_names self,
       map (\<lambda>e. (fst e, int (metacluster_size (snd e)), activity_pattern (snd e))) ?d)"
    by (simp add: load_structure_def load_task_names_def load_metaclusters_def
        those_load_metaclusters [OF ms])
  with look(1) names each show ?thesis by blast
qed

theorem save_hdf5_round_trip_witness:
  "tfmodisco_results_save_hdf5 example_savers example_results empty_group = Inr example_file
   \<and> load_structure example_file = Some ([''a'', ''b''], [(1, 1, [- 1, 1]), (0, 2, [1, 0])])"
proof -
  from save_hdf5_round_trip [OF example_save]
  have "load_structure example_file
      = Some (task_names example_results,
              map (\<lambda>e. (fst e, int (metacluster_size (snd e)), activity_pattern (snd e)))
                (metacluster_idx_to_submetacluster_results example_results))"
    by blast
  then have "load_structure example_file
      = Some ([''a'', ''b''], [(1, 1, [- 1, 1]), (0, 2, [1, 0])])"
    by (simp add: example_results_def)
  with example_save show ?thesis by (intro conjI)
qed

text \<open>
  C9: track construction writes to no array. Whatever the inputs, the memory that holds
  the buffers of the caller's arrays is after track construction the memory it was
  before, so every array object reads the same contents as before; the reverse tracks
  are views on the callers' buffers.
\<close>

theorem track_construction_frame:
  "snd (build_track_set_shared tn cs hc oh mem) = mem
   \<and> (\<forall>x. array_value (snd (build_track_set_shared tn cs hc oh mem)) x = array_value mem x)"
proof -
  let ?c = "mem_comprehension (\<lambda>key. mem_bind (mem_lift (getitem cs key))
                   (shared_data_track_of (key @ ''_contrib_scores''))) tn"
  let ?h = "mem_comprehension (\<lambda>key. mem_bind (mem_lift (getitem hc key))
                   (shared_data_track_of (key @ ''_hypothetical_contribs''))) tn"
  have "snd (?c mem) = mem" "snd (?h mem) = mem"
    by (rule mem_comprehension_frame, rule lookup_then_track_frame)+
  then obtain rc rh where rc: "?c mem = (rc, mem)" and rh: "?h mem = (rh, mem)"
    by (cases "?c mem"; cases "?h mem") simp
  obtain ro where ro: "shared_data_track_of ''sequence'' oh mem = (ro, mem)"
    using shared_data_track_of_frame [of "''sequence''" oh mem]
    by (cases "shared_data_track_of ''sequence'' oh mem") simp
  have "snd (build_track_set_shared tn cs hc oh mem) = mem"
    by (cases rc; cases rh; cases ro)
       (simp_all add: build_track_set_shared_def mem_bind_def mem_lift_def rc rh ro)
  then show ?thesis by simp
qed

text \<open>
  C10: in a completed run, the seqlets stored under a metacluster index \<open>idx\<close> are the
  elements of \<^verbatim>\<open>final_seqlets\<close> whose metacluster index is \<open>idx\<close>, in the order in which
  they stand in \<^verbatim>\<open>final_seqlets\<close>, and the stored \<^verbatim>\<open>metacluster_size\<close> is the length of
  that list.
\<close>

theorem submetacluster_seqlets_and_size:
  assumes "workflow_call self collab tn cs hc oh = (out, Inr res)"
    and "(idx, sub) \<in> set (metacluster_idx_to_submetacluster_results res)"
  shows "seqlets sub
      = map (\<lambda>i. final_seqlets (multitask_seqlet_creation_results res) ! i)
          (filter (\<lambda>i. metacluster_indices (metaclustering_results res) ! i = idx)
             [0..<length (final_seqlets (multitask_seqlet_creation_results res))])
    \<and> metacluster_size sub = length (seqlets sub)
    \<and> length (metacluster_indices (metaclustering_results res))
        = length (final_seqlets (multitask_seqlet_creation_results res))"
proof -
  let ?d = "metacluster_idx_to_submetacluster_results res"
  let ?ix = "metacluster_indices (metaclustering_results res)"
  let ?sq = "final_seqlets (multitask_seqlet_creation_results res)"
  from workflow_call_entries [OF assms(1)] obtain m subs where subs:
    "?d = zip (map fst (sort_key snd (py_enumerate (metacluster_sizes_of ?ix (m + 1))))) subs"
    "map metacluster_size subs
       = map snd (sort_key snd (py_enumerate (metacluster_sizes_of ?ix (m + 1))))"
    "\<forall>e \<in> set ?d. seqlets (snd e) = map fst (filter (\<lambda>x. snd x = fst e) (zip ?sq ?ix))
        \<and> length ?sq = length ?ix"
    by blast
  let ?todo = "sort_key snd (py_enumerate (metacluster_sizes_of ?ix (m + 1)))"
  from subs(3) assms(2) have sq: "seqlets sub = map fst (filter (\<lambda>x. snd x = idx) (zip ?sq ?ix))"
    and len: "length ?sq = length ?ix" by auto
  from subs(2) have len_subs: "length subs = length ?todo" by (metis length_map)
  from assms(2) subs(1) len_subs obtain i where i: "i < length ?todo"
    "idx = fst (?todo ! i)" "sub = subs ! i"
    by (auto simp: in_set_zip)
  from subs(2) i(1) len_subs have "metacluster_size (subs ! i) = snd (?todo ! i)"
    by (metis nth_map)
  moreover from i(1) have "?todo ! i \<in> set (py_enumerate (metacluster_sizes_of ?ix (m + 1)))"
    by (metis nth_mem set_sort)
  then have "snd (?todo ! i) = length (filter (\<lambda>j. fst (?todo ! i) = j) ?ix)"
    by (intro py_enumerate_sizes [where n = "m + 1"]) simp
  ultimately have "metacluster_size sub = length (filter (\<lambda>j. idx = j) ?ix)"
    using i by simp
  also have "\<dots> = length (seqlets sub)"
    unfolding sq by (simp add: length_filter_zip_snd [OF len])
  finally have size: "metacluster_size sub = length (seqlets sub)" .
  from sq have "seqlets sub = map (\<lambda>i. ?sq ! i) (filter (\<lambda>i. ?ix ! i = idx) [0..<length ?sq])"
    by (simp only: filter_zip_nth [OF len])
  with size len show ?thesis by simp
qed

theorem submetacluster_seqlets_and_size_witness:
  "hd (metacluster_idx_to_submetacluster_results example_results)
     \<in> set (metacluster_idx_to_submetacluster_results example_results)
   \<and> fst (hd (metacluster_idx_to_submetacluster_results example_results)) = 1
   \<and> seqlets (snd (hd (metacluster_idx_to_submetacluster_results example_results)))
       = map (\<lambda>i. final_seqlets (multitask_seqlet_creation_results example_results) ! i)
           (filter (\<lambda>i. metacluster_indices (metaclustering_results example_results) ! i = 1)
              [0..<length (final_seqlets (multitask_seqlet_creation_results example_results))])
   \<and> metacluster_size (snd (hd (metacluster_idx_to_submetacluster_results example_results)))
       = length (seqlets (snd (hd (metacluster_idx_to_submetacluster_results
                                     example_results))))"
proof -
  have h: "(1, snd (hd (metacluster_idx_to_submetacluster_results example_results)))
     \<in> set (metacluster_idx_to_submetacluster_results example_results)"
    "fst (hd (metacluster_idx_to_submetacluster_results example_results)) = 1"
    by (simp_all add: example_results_def)
  have m: "hd (metacluster_idx_to_submetacluster_results example_results)
     \<in> set (metacluster_idx_to_submetacluster_results example_results)"
    by (simp add: example_results_def)
  from submetacluster_seqlets_and_size [OF example_run h(1)] m h(2) show ?thesis
    by blast
qed

end
